theory Spec2Isabelle
  imports Complex_Main
begin

section \<open>JavaScript values used by the forms\<close>

text \<open>
  A JavaScript number is modelled by the real it denotes, plus \<open>NaN\<close>: the number inputs
  of the forms are registered with \<open>valueAsNumber: true\<close>, which yields \<open>NaN\<close> for an
  empty or non-numeric input.  Every comparison with \<open>NaN\<close> is false.  The infinities
  and the rounding of floating-point arithmetic are left out: the schemas only compare.
\<close>

datatype jsnumber = NaN | Num real

fun js_gt :: "jsnumber \<Rightarrow> jsnumber \<Rightarrow> bool" where
  "js_gt (Num a) (Num b) = (a > b)"
| "js_gt _ _ = False"

fun js_le :: "jsnumber \<Rightarrow> jsnumber \<Rightarrow> bool" where
  "js_le (Num a) (Num b) = (a \<le> b)"
| "js_le _ _ = False"

text \<open>Truthiness of an optional number (\<open>undefined\<close>, \<open>NaN\<close> and \<open>0\<close> are falsy).\<close>

fun truthy_num :: "jsnumber option \<Rightarrow> bool" where
  "truthy_num None = False"
| "truthy_num (Some NaN) = False"
| "truthy_num (Some (Num x)) = (x \<noteq> 0)"

text \<open>
  Strings are lists of code units; a \<open>char\<close> stands for a code unit below 256 (Latin-1),
  and \<open>length\<close> is the \<open>.length\<close> of the source.  \<open>isWhiteSpace\<close> is the set that
  \<open>String.prototype.trim\<close> and the regex class \<open>\s\<close> use, restricted to that range:
  tab, line feed, vertical tab, form feed, carriage return, space, no-break space.
\<close>

definition isWhiteSpace :: "char \<Rightarrow> bool" where
  "isWhiteSpace c \<longleftrightarrow>
     c = CHR 0x09 \<or> c = CHR 0x0A \<or> c = CHR 0x0B \<or> c = CHR 0x0C \<or> c = CHR 0x0D \<or>
     c = CHR 0x20 \<or> c = CHR 0xA0"

definition trim :: "string \<Rightarrow> string" where
  "trim s = rev (dropWhile isWhiteSpace (rev (dropWhile isWhiteSpace s)))"

text \<open>\<open>toLowerCase\<close> on Latin-1: A-Z and the accented capitals (except the
  multiplication sign) move up by 32.\<close>

definition toLowerCase_char :: "char \<Rightarrow> char" where
  "toLowerCase_char c =
     (let n = (of_char c :: nat) in
      if (65 \<le> n \<and> n \<le> 90) \<or> (192 \<le> n \<and> n \<le> 222 \<and> n \<noteq> 215)
      then char_of (n + 32) else c)"

definition toLowerCase :: "string \<Rightarrow> string" where
  "toLowerCase s = map toLowerCase_char s"

section \<open>Slug generation (the effect on the title field)\<close>

text \<open>The character class \<open>[a-z0-9-]\<close> of the slug pattern, and \<open>[a-z0-9 -]\<close> of the
  generator.\<close>

definition slug_char :: "char \<Rightarrow> bool" where
  "slug_char c \<longleftrightarrow>
     (let n = (of_char c :: nat) in (97 \<le> n \<and> n \<le> 122) \<or> (48 \<le> n \<and> n \<le> 57) \<or> c = CHR ''-'')"

definition slug_keep :: "char \<Rightarrow> bool" where
  "slug_keep c \<longleftrightarrow> slug_char c \<or> c = CHR '' ''"

text \<open>The pattern \<open>/^[a-z0-9-]*$/\<close> of the slug field.\<close>

definition slug_regex :: "string \<Rightarrow> bool" where
  "slug_regex s \<longleftrightarrow> list_all slug_char s"

text \<open>\<open>s.replace(/X+/g, r)\<close>: every maximal run of characters of class \<open>p\<close> becomes
  \<open>r\<close>.\<close>

function replace_runs :: "(char \<Rightarrow> bool) \<Rightarrow> string \<Rightarrow> string \<Rightarrow> string" where
  "replace_runs p r [] = []"
| "replace_runs p r (c # cs) =
     (if p c then r @ replace_runs p r (dropWhile p cs) else c # replace_runs p r cs)"
  by pat_completeness auto
termination
  by (relation "measure (\<lambda>(p, r, s). length s)")
     (auto simp: less_Suc_eq_le length_dropWhile_le)

definition is_hyphen :: "char \<Rightarrow> bool" where
  "is_hyphen c \<longleftrightarrow> c = CHR ''-''"

text \<open>\<open>s.replace(/^-+|-+$/g, "")\<close>.\<close>

definition strip_hyphens :: "string \<Rightarrow> string" where
  "strip_hyphens s = rev (dropWhile is_hyphen (rev (dropWhile is_hyphen s)))"

text \<open>
  The body of the timer of the slug effect:
  \<^verbatim>\<open>watchTitle.toLowerCase().trim().replace(/[^a-z0-9 -]/g, "")
     .replace(/\s+/g, "-").replace(/-+/g, "-").replace(/^-+|-+$/g, "")\<close>
\<close>

definition generatedSlug :: "string \<Rightarrow> string" where
  "generatedSlug watchTitle =
     strip_hyphens
       (replace_runs is_hyphen ''-''
         (replace_runs isWhiteSpace ''-''
           (filter slug_keep (trim (toLowerCase watchTitle)))))"

text \<open>The effect itself: a blank title clears the slug, any other title sets the
  generated one (the 500 ms delay is not modelled).\<close>

definition slugEffect :: "string \<Rightarrow> string" where
  "slugEffect watchTitle =
     (if watchTitle \<noteq> [] \<and> trim watchTitle \<noteq> [] then generatedSlug watchTitle else [])"

section \<open>The fragment of the zod library the schemas use\<close>

text \<open>
  A parse returns a status and adds issues to a shared list.  A status is \<open>valid\<close>,
  \<open>dirty\<close> (an issue was added and parsing went on) or \<open>aborted\<close> (a value of the
  wrong type, or outside an enum: the parser returns \<open>INVALID\<close>).  An issue is a path
  and a message; a check given no message of its own reports the library's default
  one, kept abstract as its issue code.
\<close>

datatype pstatus = Valid | Dirty | Aborted

datatype seg = Key string | Idx nat

datatype zcode = invalid_type | invalid_enum_value | too_small | too_big

datatype zmsg = Msg string | Default zcode

type_synonym issue = "seg list \<times> zmsg"

type_synonym parse = "pstatus \<times> issue list"

text \<open>What \<open>safeParse\<close> reports of a finished parse: \<open>success\<close> exactly when the status
  is valid, and otherwise the issues collected.  The resolver of the form library turns a
  failure into the form's errors, and \<open>trigger()\<close> resolves to \<open>success\<close>.\<close>

definition success :: "parse \<Rightarrow> bool" where
  "success r \<longleftrightarrow> fst r = Valid"

definition issues :: "parse \<Rightarrow> issue list" where
  "issues r = snd r"

definition aborted :: "parse \<Rightarrow> bool" where
  "aborted r \<longleftrightarrow> fst r = Aborted"

text \<open>\<open>ParseStatus.mergeObjectSync\<close> / \<open>mergeArray\<close>: every member has been parsed (its
  issues are recorded) before the statuses are merged; one aborted member aborts the
  whole, one dirty member makes it dirty.\<close>

definition merge_status :: "pstatus list \<Rightarrow> pstatus" where
  "merge_status ss =
     (if Aborted \<in> set ss then Aborted else if Dirty \<in> set ss then Dirty else Valid)"

definition merge :: "parse list \<Rightarrow> parse" where
  "merge ps = (merge_status (map fst ps), concat (map snd ps))"

text \<open>The outcome of a list of non-fatal checks on one value: dirty when any fails.\<close>

definition checked :: "seg list \<Rightarrow> zmsg list \<Rightarrow> parse" where
  "checked p ms = (if ms = [] then Valid else Dirty, map (Pair p) ms)"

text \<open>String checks \<open>.min(n, msg)\<close>, \<open>.max(n, msg)\<close>, \<open>.regex(re, msg)\<close> and the
  field rule \<open>.refine(pred, msg)\<close>; each yields its message when it fails.\<close>

definition str_min :: "nat \<Rightarrow> zmsg \<Rightarrow> string \<Rightarrow> zmsg list" where
  "str_min n m v = (if length v < n then [m] else [])"

definition str_max :: "nat \<Rightarrow> zmsg \<Rightarrow> string \<Rightarrow> zmsg list" where
  "str_max n m v = (if length v > n then [m] else [])"

definition str_regex :: "(string \<Rightarrow> bool) \<Rightarrow> zmsg \<Rightarrow> string \<Rightarrow> zmsg list" where
  "str_regex re m v = (if re v then [] else [m])"

definition str_refine :: "(string \<Rightarrow> bool) \<Rightarrow> zmsg \<Rightarrow> string \<Rightarrow> zmsg list" where
  "str_refine pred m v = (if pred v then [] else [m])"

text \<open>\<open>z.string()\<close> with its checks, in the order they are chained.\<close>

definition z_string :: "(string \<Rightarrow> zmsg list) list \<Rightarrow> seg list \<Rightarrow> string \<Rightarrow> parse" where
  "z_string checks p v = checked p (concat (map (\<lambda>c. c v) checks))"

definition num_min :: "real \<Rightarrow> zmsg \<Rightarrow> real \<Rightarrow> zmsg list" where
  "num_min n m x = (if x < n then [m] else [])"

definition num_max :: "real \<Rightarrow> zmsg \<Rightarrow> real \<Rightarrow> zmsg list" where
  "num_max n m x = (if x > n then [m] else [])"

text \<open>\<open>z.number()\<close>: \<open>NaN\<close> is not of type number, and a type error aborts.\<close>

definition z_number :: "(real \<Rightarrow> zmsg list) list \<Rightarrow> seg list \<Rightarrow> jsnumber \<Rightarrow> parse" where
  "z_number checks p v =
     (case v of NaN \<Rightarrow> (Aborted, [(p, Default invalid_type)])
      | Num x \<Rightarrow> checked p (concat (map (\<lambda>c. c x) checks)))"

text \<open>\<open>.optional()\<close>: \<open>undefined\<close> is valid, anything else goes to the inner schema.\<close>

definition z_optional :: "(seg list \<Rightarrow> 'a \<Rightarrow> parse) \<Rightarrow> seg list \<Rightarrow> 'a option \<Rightarrow> parse" where
  "z_optional inner p v = (case v of None \<Rightarrow> (Valid, []) | Some x \<Rightarrow> inner p x)"

text \<open>A required field that the form can still hold as \<open>undefined\<close> (here \<open>None\<close>):
  \<open>undefined\<close> is a type error for any schema that is not optional, and aborts.  Of the
  required fields only \<open>image\<close> has neither a default value nor a registered input; it is
  \<open>undefined\<close> until an upload or a loaded tour sets it.\<close>

definition z_required :: "(seg list \<Rightarrow> 'a \<Rightarrow> parse) \<Rightarrow> seg list \<Rightarrow> 'a option \<Rightarrow> parse" where
  "z_required inner p v =
     (case v of None \<Rightarrow> (Aborted, [(p, Default invalid_type)]) | Some x \<Rightarrow> inner p x)"

text \<open>\<open>z.enum([...])\<close>: a string outside the list aborts.\<close>

definition z_enum :: "string list \<Rightarrow> seg list \<Rightarrow> string \<Rightarrow> parse" where
  "z_enum vals p v =
     (if v \<in> set vals then (Valid, []) else (Aborted, [(p, Default invalid_enum_value)]))"

text \<open>\<open>z.array(elem).min(n, msg)\<close>: the length check first, then every element at
  its index.  \<open>n = 0\<close> stands for an array with no length check.\<close>

definition z_array ::
  "(seg list \<Rightarrow> 'a \<Rightarrow> parse) \<Rightarrow> nat \<Rightarrow> zmsg \<Rightarrow> seg list \<Rightarrow> 'a list \<Rightarrow> parse" where
  "z_array elem n m p vs =
     merge (checked p (if length vs < n then [m] else [])
            # map (\<lambda>(i, v). elem (p @ [Idx i]) v) (enumerate 0 vs))"

text \<open>
  The slug field, \<open>z.string().regex(...).optional().or(z.literal(""))\<close>.  The union
  returns the first option that is valid; failing that, the first dirty option with
  its issues.  The literal accepts only \<open>""\<close>, which the first option accepts too, so
  the union is the first option.
\<close>

definition z_slug :: "seg list \<Rightarrow> string option \<Rightarrow> parse" where
  "z_slug p v =
     z_optional
       (z_string [str_regex slug_regex
          (Msg ''Slug can only contain lowercase letters, numbers and hyphens'')]) p v"

text \<open>
  \<open>schema.refine(check, {message, path})\<close> on an object: nothing is run on an aborted
  inner parse; otherwise the check runs on the data and a failure adds its issue and
  makes the result dirty (never aborted), so the next refinement of a chain runs too.
\<close>

definition refine :: "('a \<Rightarrow> bool) \<Rightarrow> seg list \<Rightarrow> string \<Rightarrow> 'a \<Rightarrow> parse \<Rightarrow> parse" where
  "refine check p m data inner =
     (if fst inner = Aborted then inner
      else if check data then inner
      else (Dirty, snd inner @ [(p, Msg m)]))"

text \<open>
  Modelled from the spec: \<open>stripHtmlTags\<close> of \<open>lib/htmlValidation\<close>, whose source is
  not available.  The spec has it remove all markup tags; here every tag (from a \<open><\<close>
  to the next \<open>>\<close>) is deleted and a \<open><\<close> that is never closed stays as text.  The
  schemas below take the function as the parameter \<open>strip\<close>; this one is used at
  concrete inputs.
\<close>

function stripHtmlTags :: "string \<Rightarrow> string" where
  "stripHtmlTags [] = []"
| "stripHtmlTags (c # cs) =
     (if c = CHR ''<'' \<and> CHR ''>'' \<in> set cs
      then stripHtmlTags (tl (dropWhile (\<lambda>x. x \<noteq> CHR ''>'') cs))
      else c # stripHtmlTags cs)"
  by pat_completeness auto
termination
  by (relation "measure length")
     (auto simp: less_Suc_eq_le intro!: le_trans [OF diff_le_self length_dropWhile_le])

section \<open>The tour-creation schema (\<open>add-tour/page_old.tsx\<close>)\<close>

text \<open>
  The form data, typed as \<open>z.infer\<close> types it.  The three forms have fields of the same
  names, so the selectors carry a prefix: \<open>t_\<close>/\<open>td_\<close> for tour creation, \<open>e_\<close>/\<open>ed_\<close> for
  tour editing, \<open>x_\<close>/\<open>xd_\<close> for transfer creation.  An enum field holds the string the
  form control delivers; an optional field, and \<open>image\<close>, is \<open>None\<close> when \<open>undefined\<close>.
\<close>

record faq =
  question :: string
  answer :: string

record TourDetails =
  td_about :: string
  td_itinerary :: string
  td_pickupLocation :: string
  td_pickupGuidelines :: string
  td_note :: string
  td_faq :: "faq list"

record TourFormData =
  t_title :: string
  t_slug :: "string option"
  t_image :: "string option"
  t_tags :: "string list"
  t_description :: string
  t_type :: string
  t_duration :: string
  t_period :: string
  t_bookedCount :: jsnumber
  t_oldPrice :: jsnumber
  t_newPrice :: jsnumber
  t_childPrice :: jsnumber
  t_minimumPerson :: jsnumber
  t_maximumPerson :: jsnumber
  t_vehicle :: "string option"
  t_seatCapacity :: "jsnumber option"
  t_departureTimes :: "string list"
  t_label :: string
  t_details :: TourDetails

text \<open>The element schema of \<open>details.faq\<close>, the same in the three schemas.\<close>

definition faqSchema :: "seg list \<Rightarrow> faq \<Rightarrow> parse" where
  "faqSchema p f =
     merge
      [z_string [str_min 1 (Msg ''Question is required'')] (p @ [Key ''question'']) (question f),
       z_string [str_min 1 (Msg ''Answer is required'')] (p @ [Key ''answer'']) (answer f)]"

text \<open>The field rule of \<open>details.pickupGuidelines\<close>, the same in the two creation
  schemas: \<open>(val) => !val || stripHtmlTags(val).length >= 15\<close>.\<close>

definition pickupGuidelinesField :: "(string \<Rightarrow> string) \<Rightarrow> seg list \<Rightarrow> string \<Rightarrow> parse" where
  "pickupGuidelinesField strip p v =
     z_string [str_refine (\<lambda>val. val = [] \<or> length (strip val) \<ge> 15)
                (Msg ''Pickup guidelines must be at least 15 characters'')] p v"

definition tourDetailsSchema :: "(string \<Rightarrow> string) \<Rightarrow> seg list \<Rightarrow> TourDetails \<Rightarrow> parse" where
  "tourDetailsSchema strip p d =
     merge
      [z_string [str_refine (\<lambda>val. length (strip val) \<ge> 100)
                  (Msg ''About section must be at least 100 characters'')]
         (p @ [Key ''about'']) (td_about d),
       z_string [str_refine (\<lambda>val. length (strip val) \<ge> 100)
                  (Msg ''Itinerary must be at least 100 characters'')]
         (p @ [Key ''itinerary'']) (td_itinerary d),
       z_string [str_refine (\<lambda>val. length (strip val) \<ge> 10)
                  (Msg ''Pickup location must be at least 10 characters'')]
         (p @ [Key ''pickupLocation'']) (td_pickupLocation d),
       pickupGuidelinesField strip (p @ [Key ''pickupGuidelines'']) (td_pickupGuidelines d),
       z_string [str_refine (\<lambda>val. length (strip val) \<ge> 10)
                  (Msg ''Note must be at least 10 characters'')]
         (p @ [Key ''note'']) (td_note d),
       z_array faqSchema 0 (Default too_small) (p @ [Key ''faq'']) (td_faq d)]"

text \<open>The \<open>z.object({...})\<close> of the tour-creation schema, field by field in its order.\<close>

definition tourObject :: "(string \<Rightarrow> string) \<Rightarrow> TourFormData \<Rightarrow> parse" where
  "tourObject strip d =
     merge
      [z_string [str_min 20 (Msg ''Title must be at least 20 characters''),
                 str_max 100 (Msg ''Title cannot exceed 100 characters'')]
         [Key ''title''] (t_title d),
       z_slug [Key ''slug''] (t_slug d),
       z_required (z_string [str_min 1 (Msg ''Please provide an image'')])
         [Key ''image''] (t_image d),
       z_array (z_string [str_min 1 (Default too_small)]) 1
         (Msg ''At least one tag is required'') [Key ''tags''] (t_tags d),
       z_string [str_min 50 (Msg ''Description must be at least 50 characters''),
                 str_max 110 (Msg ''Description cannot exceed 110 characters'')]
         [Key ''description''] (t_description d),
       z_enum [''co-tour'', ''private''] [Key ''type''] (t_type d),
       z_string [str_min 1 (Msg ''Duration is required'')] [Key ''duration''] (t_duration d),
       z_enum [''Half-Day'', ''Full-Day''] [Key ''period''] (t_period d),
       z_number [num_min 0 (Default too_small)] [Key ''bookedCount''] (t_bookedCount d),
       z_number [num_min 0 (Msg ''Old price must be 0 or greater'')]
         [Key ''oldPrice''] (t_oldPrice d),
       z_number [num_min 0 (Msg ''New price must be 0 or greater'')]
         [Key ''newPrice''] (t_newPrice d),
       z_number [num_min 0 (Msg ''Child price must be 0 or greater'')]
         [Key ''childPrice''] (t_childPrice d),
       z_number [num_min 1 (Msg ''Minimum must be at least 1 person'')]
         [Key ''minimumPerson''] (t_minimumPerson d),
       z_number [num_min 1 (Msg ''Maximum must be at least 1 person'')]
         [Key ''maximumPerson''] (t_maximumPerson d),
       z_optional (z_string []) [Key ''vehicle''] (t_vehicle d),
       z_optional (z_number []) [Key ''seatCapacity''] (t_seatCapacity d),
       z_array (z_string []) 1 (Msg ''At least one departure time is required'')
         [Key ''departureTimes''] (t_departureTimes d),
       z_enum [''Recommended'', ''Popular'', ''Best Value'', ''Best seller'', ''None'']
         [Key ''label''] (t_label d),
       tourDetailsSchema strip [Key ''details''] (t_details d)]"

text \<open>The callbacks of the three refinements, as the value each returns.\<close>

definition tour_priceCheck :: "TourFormData \<Rightarrow> bool" where
  "tour_priceCheck data = (if js_gt (t_newPrice data) (t_oldPrice data) then False else True)"

definition tour_personCheck :: "TourFormData \<Rightarrow> bool" where
  "tour_personCheck data =
     (if t_type data \<noteq> ''private'' \<and> js_le (t_maximumPerson data) (t_minimumPerson data)
      then False else True)"

definition tour_vehicleCheck :: "TourFormData \<Rightarrow> bool" where
  "tour_vehicleCheck data =
     (if t_type data = ''private'' \<and>
         (case t_vehicle data of None \<Rightarrow> True | Some v \<Rightarrow> v = [] \<or> trim v = [])
      then False else True)"

definition tourSchema :: "(string \<Rightarrow> string) \<Rightarrow> TourFormData \<Rightarrow> parse" where
  "tourSchema strip d =
     refine tour_vehicleCheck [Key ''vehicle''] ''Vehicle is required for private tours'' d
      (refine tour_personCheck [Key ''maximumPerson'']
         ''Maximum persons must be greater than minimum persons'' d
        (refine tour_priceCheck [Key ''newPrice'']
           ''New price must be less than or equal to old price'' d
          (tourObject strip d)))"

section \<open>The tour-edit schema (\<open>tours/[id]/page.tsx\<close>)\<close>

record EditTourDetails =
  ed_about :: string
  ed_itinerary :: string
  ed_pickupLocations :: "string list"
  ed_pickupGuidelines :: "string option"
  ed_notes :: "string list"
  ed_includes :: "string list"
  ed_faq :: "faq list"

record EditTourFormData =
  e_title :: string
  e_slug :: "string option"
  e_image :: "string option"
  e_tags :: "string list"
  e_description :: string
  e_type :: string
  e_duration :: string
  e_period :: string
  e_bookedCount :: jsnumber
  e_rating :: "jsnumber option"
  e_reviewCount :: "jsnumber option"
  e_oldPrice :: jsnumber
  e_newPrice :: jsnumber
  e_childPrice :: jsnumber
  e_minimumPerson :: jsnumber
  e_maximumPerson :: jsnumber
  e_vehicle :: "string option"
  e_seatCapacity :: "jsnumber option"
  e_departureTimes :: "string list"
  e_label :: string
  e_details :: EditTourDetails

definition editTourDetailsSchema :: "seg list \<Rightarrow> EditTourDetails \<Rightarrow> parse" where
  "editTourDetailsSchema p d =
     merge
      [z_string [str_min 100 (Msg ''About section must be at least 100 characters'')]
         (p @ [Key ''about'']) (ed_about d),
       z_string [str_min 50 (Msg ''Itinerary must be at least 50 characters'')]
         (p @ [Key ''itinerary'']) (ed_itinerary d),
       z_array (z_string [str_min 1 (Default too_small)]) 1
         (Msg ''At least one pickup location is required'')
         (p @ [Key ''pickupLocations'']) (ed_pickupLocations d),
       z_optional (z_string []) (p @ [Key ''pickupGuidelines'']) (ed_pickupGuidelines d),
       z_array (z_string [str_min 1 (Default too_small)]) 1
         (Msg ''At least one note is required'') (p @ [Key ''notes'']) (ed_notes d),
       z_array (z_string [str_min 1 (Default too_small)]) 1
         (Msg ''At least one included item is required'')
         (p @ [Key ''includes'']) (ed_includes d),
       z_array faqSchema 0 (Default too_small) (p @ [Key ''faq'']) (ed_faq d)]"

definition editTourObject :: "EditTourFormData \<Rightarrow> parse" where
  "editTourObject d =
     merge
      [z_string [str_min 20 (Msg ''Title must be at least 20 characters''),
                 str_max 100 (Msg ''Title cannot exceed 100 characters'')]
         [Key ''title''] (e_title d),
       z_slug [Key ''slug''] (e_slug d),
       z_required (z_string [str_min 1 (Msg ''Please provide an image'')])
         [Key ''image''] (e_image d),
       z_array (z_string [str_min 1 (Default too_small)]) 1
         (Msg ''At least one tag is required'') [Key ''tags''] (e_tags d),
       z_string [str_min 50 (Msg ''Description must be at least 50 characters''),
                 str_max 200 (Msg ''Description cannot exceed 200 characters'')]
         [Key ''description''] (e_description d),
       z_enum [''co-tour'', ''private''] [Key ''type''] (e_type d),
       z_string [str_min 1 (Msg ''Duration is required'')] [Key ''duration''] (e_duration d),
       z_enum [''Half-Day'', ''Full-Day''] [Key ''period''] (e_period d),
       z_number [num_min 0 (Default too_small)] [Key ''bookedCount''] (e_bookedCount d),
       z_optional (z_number [num_min 0 (Default too_small), num_max 5 (Default too_big)])
         [Key ''rating''] (e_rating d),
       z_optional (z_number [num_min 0 (Default too_small)])
         [Key ''reviewCount''] (e_reviewCount d),
       z_number [num_min 0 (Msg ''Old price must be 0 or greater'')]
         [Key ''oldPrice''] (e_oldPrice d),
       z_number [num_min 0 (Msg ''New price must be 0 or greater'')]
         [Key ''newPrice''] (e_newPrice d),
       z_number [num_min 0 (Msg ''Child price must be 0 or greater'')]
         [Key ''childPrice''] (e_childPrice d),
       z_number [num_min 1 (Msg ''Minimum must be at least 1 person'')]
         [Key ''minimumPerson''] (e_minimumPerson d),
       z_number [num_min 1 (Msg ''Maximum must be at least 1 person'')]
         [Key ''maximumPerson''] (e_maximumPerson d),
       z_optional (z_string []) [Key ''vehicle''] (e_vehicle d),
       z_optional (z_number []) [Key ''seatCapacity''] (e_seatCapacity d),
       z_array (z_string []) 1 (Msg ''At least one departure time is required'')
         [Key ''departureTimes''] (e_departureTimes d),
       z_enum [''Recommended'', ''Popular'', ''Best Value'', ''Best Seller'', ''None'']
         [Key ''label''] (e_label d),
       editTourDetailsSchema [Key ''details''] (e_details d)]"

definition editTour_priceCheck :: "EditTourFormData \<Rightarrow> bool" where
  "editTour_priceCheck data =
     (if js_gt (e_newPrice data) (e_oldPrice data) then False else True)"

definition editTour_personCheck :: "EditTourFormData \<Rightarrow> bool" where
  "editTour_personCheck data =
     (if e_type data \<noteq> ''private'' \<and> js_le (e_maximumPerson data) (e_minimumPerson data)
      then False else True)"

definition editTourSchema :: "EditTourFormData \<Rightarrow> parse" where
  "editTourSchema d =
     refine editTour_personCheck [Key ''maximumPerson'']
       ''Maximum persons must be greater than minimum persons'' d
      (refine editTour_priceCheck [Key ''newPrice'']
         ''New price must be less than or equal to old price'' d
        (editTourObject d))"

section \<open>The transfer-creation schema (\<open>add-transfer/page.tsx\<close>)\<close>

record TransferDetails =
  xd_about :: string
  xd_itinerary :: string
  xd_pickupOption :: string
  xd_pickupLocation :: "string option"
  xd_dropOffLocation :: "string option"
  xd_pickupGuidelines :: string
  xd_note :: string
  xd_faq :: "faq list"

record TransferFormData =
  x_title :: string
  x_slug :: "string option"
  x_image :: "string option"
  x_tags :: "string list"
  x_description :: string
  x_type :: string
  x_vehicle :: "string option"
  x_from :: string
  x_to :: string
  x_duration :: string
  x_bookedCount :: jsnumber
  x_rating :: "jsnumber option"
  x_reviewCount :: "jsnumber option"
  x_oldPrice :: jsnumber
  x_newPrice :: jsnumber
  x_childPrice :: "jsnumber option"
  x_minimumPerson :: "jsnumber option"
  x_maximumPerson :: "jsnumber option"
  x_seatCapacity :: jsnumber
  x_departureTimes :: "string list"
  x_label :: string
  x_details :: TransferDetails

text \<open>\<open>a && b && a <= b\<close> on optional numbers: the comparison is reached only when
  both are present.\<close>

fun opt_le :: "jsnumber option \<Rightarrow> jsnumber option \<Rightarrow> bool" where
  "opt_le (Some a) (Some b) = js_le a b"
| "opt_le _ _ = False"

definition transferDetailsSchema ::
  "(string \<Rightarrow> string) \<Rightarrow> seg list \<Rightarrow> TransferDetails \<Rightarrow> parse" where
  "transferDetailsSchema strip p d =
     merge
      [z_string [str_refine (\<lambda>val. length (strip val) \<ge> 100)
                  (Msg ''About section must be at least 100 characters'')]
         (p @ [Key ''about'']) (xd_about d),
       z_string [str_refine (\<lambda>val. length (strip val) \<ge> 100)
                  (Msg ''Itinerary must be at least 100 characters'')]
         (p @ [Key ''itinerary'']) (xd_itinerary d),
       z_enum [''admin'', ''user''] (p @ [Key ''pickupOption'']) (xd_pickupOption d),
       z_optional (z_string []) (p @ [Key ''pickupLocation'']) (xd_pickupLocation d),
       z_optional (z_string []) (p @ [Key ''dropOffLocation'']) (xd_dropOffLocation d),
       pickupGuidelinesField strip (p @ [Key ''pickupGuidelines'']) (xd_pickupGuidelines d),
       z_string [str_refine (\<lambda>val. length (strip val) \<ge> 10)
                  (Msg ''Note must be at least 10 characters'')]
         (p @ [Key ''note'']) (xd_note d),
       z_array faqSchema 0 (Default too_small) (p @ [Key ''faq'']) (xd_faq d)]"

definition transferObject :: "(string \<Rightarrow> string) \<Rightarrow> TransferFormData \<Rightarrow> parse" where
  "transferObject strip d =
     merge
      [z_string [str_min 20 (Msg ''Title must be at least 20 characters''),
                 str_max 100 (Msg ''Title cannot exceed 100 characters'')]
         [Key ''title''] (x_title d),
       z_slug [Key ''slug''] (x_slug d),
       z_required (z_string [str_min 1 (Msg ''Please provide an image'')])
         [Key ''image''] (x_image d),
       z_array (z_string [str_min 1 (Default too_small)]) 1
         (Msg ''At least one tag is required'') [Key ''tags''] (x_tags d),
       z_string [str_min 50 (Msg ''Description must be at least 50 characters''),
                 str_max 110 (Msg ''Description cannot exceed 110 characters'')]
         [Key ''description''] (x_description d),
       z_enum [''Van'', ''Van + Ferry'', ''Private''] [Key ''type''] (x_type d),
       z_optional (z_string []) [Key ''vehicle''] (x_vehicle d),
       z_string [str_min 2 (Msg ''From location is required'')] [Key ''from''] (x_from d),
       z_string [str_min 2 (Msg ''To location is required'')] [Key ''to''] (x_to d),
       z_string [str_min 1 (Msg ''Duration is required'')] [Key ''duration''] (x_duration d),
       z_number [num_min 0 (Default too_small)] [Key ''bookedCount''] (x_bookedCount d),
       z_optional (z_number [num_min 0 (Default too_small), num_max 5 (Default too_big)])
         [Key ''rating''] (x_rating d),
       z_optional (z_number [num_min 0 (Default too_small)])
         [Key ''reviewCount''] (x_reviewCount d),
       z_number [num_min 0 (Msg ''Old price must be 0 or greater'')]
         [Key ''oldPrice''] (x_oldPrice d),
       z_number [num_min 0 (Msg ''New price must be 0 or greater'')]
         [Key ''newPrice''] (x_newPrice d),
       z_optional (z_number [num_min 0 (Msg ''Child price must be 0 or greater'')])
         [Key ''childPrice''] (x_childPrice d),
       z_optional (z_number [num_min 1 (Msg ''Minimum must be at least 1 person'')])
         [Key ''minimumPerson''] (x_minimumPerson d),
       z_optional (z_number [num_min 1 (Msg ''Maximum must be at least 1 person'')])
         [Key ''maximumPerson''] (x_maximumPerson d),
       z_number [num_min 1 (Msg ''Seat capacity must be at least 1'')]
         [Key ''seatCapacity''] (x_seatCapacity d),
       z_array (z_string []) 1 (Msg ''At least one departure time is required'')
         [Key ''departureTimes''] (x_departureTimes d),
       z_enum [''Recommended'', ''Popular'', ''Best Value'', ''Best seller'', ''None'']
         [Key ''label''] (x_label d),
       transferDetailsSchema strip [Key ''details''] (x_details d)]"

text \<open>The callbacks of the seven refinements, in the order they are chained.  A
  JavaScript \<open>a && a.length >= n\<close> on an optional string is false for \<open>undefined\<close> and
  for \<open>""\<close>.\<close>

definition transfer_priceCheck :: "TransferFormData \<Rightarrow> bool" where
  "transfer_priceCheck data =
     (if js_gt (x_newPrice data) (x_oldPrice data) then False else True)"

definition transfer_requiredCheck :: "TransferFormData \<Rightarrow> bool" where
  "transfer_requiredCheck data =
     (if x_type data \<noteq> ''Private''
      then x_childPrice data \<noteq> None \<and> x_minimumPerson data \<noteq> None \<and>
           x_maximumPerson data \<noteq> None
      else True)"

definition transfer_personCheck :: "TransferFormData \<Rightarrow> bool" where
  "transfer_personCheck data =
     (if x_type data \<noteq> ''Private'' \<and> truthy_num (x_maximumPerson data) \<and>
         truthy_num (x_minimumPerson data) \<and>
         opt_le (x_maximumPerson data) (x_minimumPerson data)
      then False else True)"

definition transfer_routeCheck :: "TransferFormData \<Rightarrow> bool" where
  "transfer_routeCheck data =
     (if toLowerCase (x_from data) = toLowerCase (x_to data) then False else True)"

definition transfer_pickupLocationCheck :: "TransferFormData \<Rightarrow> bool" where
  "transfer_pickupLocationCheck data =
     (if xd_pickupOption (x_details data) = ''admin''
      then (case xd_pickupLocation (x_details data) of None \<Rightarrow> False
            | Some v \<Rightarrow> v \<noteq> [] \<and> length v \<ge> 10)
      else True)"

definition transfer_pickupGuidelinesCheck :: "TransferFormData \<Rightarrow> bool" where
  "transfer_pickupGuidelinesCheck data =
     (xd_pickupGuidelines (x_details data) \<noteq> [] \<and>
      length (xd_pickupGuidelines (x_details data)) \<ge> 15)"

definition transfer_vehicleCheck :: "TransferFormData \<Rightarrow> bool" where
  "transfer_vehicleCheck data =
     (if x_type data = ''Private''
      then (case x_vehicle data of None \<Rightarrow> False | Some v \<Rightarrow> v \<noteq> [] \<and> length v \<ge> 2)
      else True)"

definition transferSchema :: "(string \<Rightarrow> string) \<Rightarrow> TransferFormData \<Rightarrow> parse" where
  "transferSchema strip d =
     refine transfer_vehicleCheck [Key ''vehicle'']
       ''Vehicle name is required for private transfers'' d
      (refine transfer_pickupGuidelinesCheck [Key ''details.pickupGuidelines'']
         ''Pickup guidelines must be at least 15 characters'' d
        (refine transfer_pickupLocationCheck [Key ''details.pickupLocation'']
           ''Pickup location must be at least 10 characters'' d
          (refine transfer_routeCheck [Key ''to'']
             ''From and To locations must be different'' d
            (refine transfer_personCheck [Key ''maximumPerson'']
               ''Maximum persons must be greater than minimum persons'' d
              (refine transfer_requiredCheck [Key ''type'']
                 ''Child price, minimum persons, and maximum persons are required for non-Private transfers'' d
                (refine transfer_priceCheck [Key ''newPrice'']
                   ''New price must be less than or equal to old price'' d
                  (transferObject strip d)))))))"

section \<open>The validate-then-save workflow of the creation forms\<close>

text \<open>
  The state of a creation page that the workflow reads and writes: the values held by
  the form library, the identity of the three arrays among them, and the three flags.

  An effect compares its dependencies with \<open>Object.is\<close>: strings, numbers and
  \<open>undefined\<close> by value, arrays by identity.  The pages replace \<open>tags\<close> and
  \<open>departureTimes\<close> by a new array on every change (\<open>field.onChange([...])\<close>), and
  \<open>append\<close>/\<open>remove\<close> replace \<open>details.faq\<close>; the inputs of one FAQ entry
  (\<open>details.faq.i.question\<close>, \<open>details.faq.i.answer\<close>) write into the array in place.
  The identity of an array is a token, and a new array gets the next one.
\<close>

record ArrayIds =
  tags_id :: nat
  departureTimes_id :: nat
  faq_id :: nat

definition new_tags :: "ArrayIds \<Rightarrow> ArrayIds" where
  "new_tags a = a\<lparr>tags_id := Suc (tags_id a)\<rparr>"

definition new_departureTimes :: "ArrayIds \<Rightarrow> ArrayIds" where
  "new_departureTimes a = a\<lparr>departureTimes_id := Suc (departureTimes_id a)\<rparr>"

definition new_faq :: "ArrayIds \<Rightarrow> ArrayIds" where
  "new_faq a = a\<lparr>faq_id := Suc (faq_id a)\<rparr>"

text \<open>A write that replaces no array.\<close>

definition same_arrays :: "ArrayIds \<Rightarrow> ArrayIds" where
  "same_arrays a = a"

datatype 'a outcome = PromptValidateFirst | PromptImageUpload | Submitted 'a

text \<open>\<open>faq.filter((faq) => faq.question.trim() && faq.answer.trim())\<close>\<close>

definition validFaqs :: "faq list \<Rightarrow> faq list" where
  "validFaqs fs = filter (\<lambda>faq. trim (question faq) \<noteq> [] \<and> trim (answer faq) \<noteq> []) fs"

record TourForm =
  tf_values :: TourFormData
  tf_arrays :: ArrayIds
  tf_hasValidated :: bool
  tf_validationSuccess :: bool
  tf_showValidationErrors :: bool

definition tour_handleShowErrors :: "(string \<Rightarrow> string) \<Rightarrow> TourForm \<Rightarrow> TourForm" where
  "tour_handleShowErrors strip st =
     (let isFormValid = success (tourSchema strip (tf_values st));
          success =
            (if isFormValid
             then (if length (validFaqs (td_faq (t_details (tf_values st)))) = 0
                   then False else True)
             else False)
      in st\<lparr>tf_validationSuccess := success, tf_hasValidated := True,
            tf_showValidationErrors := True\<rparr>)"

text \<open>The dependency list of the effect commented "Reset validation state when any
  form field changes", as \<open>Object.is\<close> sees it between two renders: the watched strings
  and numbers, and the identities of the watched arrays.\<close>

definition tour_watched where
  "tour_watched d a =
     (((t_title d, t_type d, t_description d, t_image d, tags_id a, t_duration d),
       (t_bookedCount d, t_oldPrice d, t_newPrice d, t_childPrice d, t_minimumPerson d,
        t_maximumPerson d)),
      ((t_vehicle d, t_period d, t_label d, t_slug d, departureTimes_id a),
       (td_about (t_details d), td_itinerary (t_details d), td_pickupLocation (t_details d),
        td_note (t_details d), faq_id a, td_pickupGuidelines (t_details d))))"

definition tour_resetEffect :: "TourForm \<Rightarrow> TourForm" where
  "tour_resetEffect st =
     (if tf_hasValidated st
      then st\<lparr>tf_hasValidated := False, tf_validationSuccess := False,
              tf_showValidationErrors := False\<rparr>
      else st)"

text \<open>A change of the form values (\<open>setValue\<close> or an input event) that writes \<open>upd\<close>
  and replaces the arrays that \<open>arr\<close> gives a new identity, followed by the render whose
  effects run when a dependency changed.\<close>

definition tour_change ::
  "(TourFormData \<Rightarrow> TourFormData) \<Rightarrow> (ArrayIds \<Rightarrow> ArrayIds) \<Rightarrow> TourForm \<Rightarrow> TourForm" where
  "tour_change upd arr st =
     (let st' = st\<lparr>tf_values := upd (tf_values st), tf_arrays := arr (tf_arrays st)\<rparr>
      in if tour_watched (tf_values st') (tf_arrays st')
            \<noteq> tour_watched (tf_values st) (tf_arrays st)
         then tour_resetEffect st' else st')"

text \<open>\<open>handleSaveTour\<close>; what \<open>onSubmit\<close> then sends is the current values (the request
  itself is not modelled).\<close>

definition handleSaveTour :: "TourForm \<Rightarrow> TourFormData outcome" where
  "handleSaveTour st =
     (if \<not> tf_hasValidated st \<or> \<not> tf_validationSuccess st then PromptValidateFirst
      else Submitted (tf_values st))"

record TransferForm =
  xf_values :: TransferFormData
  xf_arrays :: ArrayIds
  xf_hasValidated :: bool
  xf_validationSuccess :: bool
  xf_showValidationErrors :: bool
  xf_uploadedImageUrl :: string

definition transfer_handleShowErrors ::
  "(string \<Rightarrow> string) \<Rightarrow> TransferForm \<Rightarrow> TransferForm" where
  "transfer_handleShowErrors strip st =
     (let isFormValid = success (transferSchema strip (xf_values st));
          success =
            (if isFormValid
             then (if length (validFaqs (xd_faq (x_details (xf_values st)))) = 0
                   then False else True)
             else False)
      in st\<lparr>xf_validationSuccess := success, xf_showValidationErrors := True,
            xf_hasValidated := True\<rparr>)"

definition transfer_watched where
  "transfer_watched d a =
     (((x_title d, x_type d, x_description d, x_image d, tags_id a, x_duration d),
       (x_bookedCount d, x_oldPrice d, x_newPrice d, x_childPrice d, x_label d, x_slug d)),
      ((x_from d, x_to d, xd_pickupOption (x_details d), x_minimumPerson d,
        x_maximumPerson d, departureTimes_id a),
       (xd_about (x_details d), xd_itinerary (x_details d),
        xd_pickupLocation (x_details d), xd_pickupGuidelines (x_details d),
        xd_note (x_details d), faq_id a)))"

definition transfer_resetEffect :: "TransferForm \<Rightarrow> TransferForm" where
  "transfer_resetEffect st =
     (if xf_hasValidated st
      then st\<lparr>xf_hasValidated := False, xf_validationSuccess := False,
              xf_showValidationErrors := False\<rparr>
      else st)"

definition transfer_change ::
  "(TransferFormData \<Rightarrow> TransferFormData) \<Rightarrow> (ArrayIds \<Rightarrow> ArrayIds) \<Rightarrow>
   TransferForm \<Rightarrow> TransferForm" where
  "transfer_change upd arr st =
     (let st' = st\<lparr>xf_values := upd (xf_values st), xf_arrays := arr (xf_arrays st)\<rparr>
      in if transfer_watched (xf_values st') (xf_arrays st')
            \<noteq> transfer_watched (xf_values st) (xf_arrays st)
         then transfer_resetEffect st' else st')"

text \<open>\<open>handleSaveTransfer\<close> and the first test of its \<open>onSubmit\<close>.\<close>

definition handleSaveTransfer :: "TransferForm \<Rightarrow> TransferFormData outcome" where
  "handleSaveTransfer st =
     (if \<not> xf_hasValidated st \<or> \<not> xf_validationSuccess st then PromptValidateFirst
      else if xf_uploadedImageUrl st = [] then PromptImageUpload
      else Submitted (xf_values st))"

section \<open>Concrete drafts\<close>

text \<open>A tour draft that the creation schema accepts (the valid scenario of the
  specification), the same tour in the shape of the edit form, and a transfer draft that
  the transfer schema accepts.\<close>

definition valid_tour :: TourFormData where
  "valid_tour =
     \<lparr>t_title = replicate 25 CHR ''x'', t_slug = Some [], t_image = Some ''https://example.com/i.jpg'',
      t_tags = [''Full-Day''], t_description = replicate 60 CHR ''y'', t_type = ''co-tour'',
      t_duration = ''4'', t_period = ''Half-Day'', t_bookedCount = Num 0,
      t_oldPrice = Num 100, t_newPrice = Num 80, t_childPrice = Num 40,
      t_minimumPerson = Num 2, t_maximumPerson = Num 10, t_vehicle = Some [],
      t_seatCapacity = None, t_departureTimes = [''08:00''], t_label = ''None'',
      t_details =
        \<lparr>td_about = replicate 100 CHR ''a'', td_itinerary = replicate 100 CHR ''b'',
         td_pickupLocation = replicate 10 CHR ''c'', td_pickupGuidelines = [],
         td_note = replicate 10 CHR ''d'',
         td_faq = [\<lparr>question = ''Q'', answer = ''A''\<rparr>]\<rparr>\<rparr>"

definition valid_editTour :: EditTourFormData where
  "valid_editTour =
     \<lparr>e_title = replicate 25 CHR ''x'', e_slug = Some [], e_image = Some ''https://example.com/i.jpg'',
      e_tags = [''Full-Day''], e_description = replicate 60 CHR ''y'', e_type = ''co-tour'',
      e_duration = ''4'', e_period = ''Half-Day'', e_bookedCount = Num 0,
      e_rating = Some (Num 0), e_reviewCount = Some (Num 0),
      e_oldPrice = Num 100, e_newPrice = Num 80, e_childPrice = Num 40,
      e_minimumPerson = Num 2, e_maximumPerson = Num 10, e_vehicle = Some [],
      e_seatCapacity = Some (Num 4), e_departureTimes = [''08:00 AM''], e_label = ''None'',
      e_details =
        \<lparr>ed_about = replicate 100 CHR ''a'', ed_itinerary = replicate 50 CHR ''b'',
         ed_pickupLocations = [''Tanah Rata''], ed_pickupGuidelines = Some [],
         ed_notes = [''Bring a jacket''], ed_includes = [''Guide''],
         ed_faq = [\<lparr>question = ''Q'', answer = ''A''\<rparr>]\<rparr>\<rparr>"

definition valid_transfer :: TransferFormData where
  "valid_transfer =
     \<lparr>x_title = replicate 25 CHR ''x'', x_slug = Some [], x_image = Some ''https://example.com/i.jpg'',
      x_tags = [''Van''], x_description = replicate 60 CHR ''y'', x_type = ''Van'',
      x_vehicle = Some [], x_from = ''Tanah Rata'', x_to = ''Kuala Lumpur'',
      x_duration = ''4'', x_bookedCount = Num 0, x_rating = Some (Num 0),
      x_reviewCount = Some (Num 0), x_oldPrice = Num 100, x_newPrice = Num 80,
      x_childPrice = Some (Num 40), x_minimumPerson = Some (Num 1),
      x_maximumPerson = Some (Num 10), x_seatCapacity = Num 4,
      x_departureTimes = [''08:00''], x_label = ''None'',
      x_details =
        \<lparr>xd_about = replicate 100 CHR ''a'', xd_itinerary = replicate 100 CHR ''b'',
         xd_pickupOption = ''admin'', xd_pickupLocation = Some (replicate 10 CHR ''c''),
         xd_dropOffLocation = Some [], xd_pickupGuidelines = replicate 15 CHR ''g'',
         xd_note = replicate 10 CHR ''d'',
         xd_faq = [\<lparr>question = ''Q'', answer = ''A''\<rparr>]\<rparr>\<rparr>"

text \<open>The accepted transfer with an admin-defined pickup location of two visible
  characters inside markup, and a private transfer whose vehicle is a bare tag.\<close>

definition padded_pickup_transfer :: TransferFormData where
  "padded_pickup_transfer =
     valid_transfer\<lparr>x_details := (x_details valid_transfer)
       \<lparr>xd_pickupLocation := Some ''<div>hi</div>''\<rparr>\<rparr>"

definition markup_vehicle_transfer :: TransferFormData where
  "markup_vehicle_transfer = valid_transfer\<lparr>x_type := ''Private'', x_vehicle := Some ''<i>''\<rparr>"

text \<open>A run of the transfer page: a private transfer with its image uploaded and a
  vehicle chosen, the Validate button, then \<open>setValue("seatCapacity", 0)\<close> (what the
  vehicle selector does for a vehicle the server lists with no seats).\<close>

definition private_transfer :: TransferFormData where
  "private_transfer = valid_transfer\<lparr>x_type := ''Private'', x_vehicle := Some ''Alphard''\<rparr>"

definition run_start :: TransferForm where
  "run_start =
     \<lparr>xf_values = private_transfer,
      xf_arrays = \<lparr>tags_id = 0, departureTimes_id = 0, faq_id = 0\<rparr>,
      xf_hasValidated = False, xf_validationSuccess = False,
      xf_showValidationErrors = False, xf_uploadedImageUrl = ''https://example.com/i.jpg''\<rparr>"

definition run_validated :: TransferForm where
  "run_validated = transfer_handleShowErrors stripHtmlTags run_start"

definition run_changed :: TransferForm where
  "run_changed =
     transfer_change (\<lambda>d. d\<lparr>x_seatCapacity := Num 0\<rparr>) same_arrays run_validated"

section \<open>Slug generation always yields a well-formed slug\<close>

lemma replace_runs_all:
  "list_all Q r \<Longrightarrow> (\<forall>c\<in>set s. \<not> p c \<longrightarrow> Q c) \<Longrightarrow> list_all Q (replace_runs p r s)"
proof (induction p r s rule: replace_runs.induct)
  case (1 p r)
  then show ?case by simp
next
  case (2 p r c cs)
  show ?case
  proof (cases "p c")
    case True
    have "\<forall>x\<in>set (dropWhile p cs). \<not> p x \<longrightarrow> Q x"
      using 2(4) by (auto dest: set_dropWhileD)
    with 2 True show ?thesis by simp
  next
    case False
    with 2 show ?thesis by simp
  qed
qed

lemma strip_hyphens_all: "list_all Q s \<Longrightarrow> list_all Q (strip_hyphens s)"
  by (auto simp: strip_hyphens_def list_all_iff dest!: set_dropWhileD)

lemma slug_keep_cases: "slug_keep c \<Longrightarrow> \<not> isWhiteSpace c \<Longrightarrow> slug_char c"
  by (auto simp: slug_keep_def isWhiteSpace_def)

lemma generatedSlug_chars: "list_all slug_char (generatedSlug t)"
proof -
  let ?kept = "filter slug_keep (trim (toLowerCase t))"
  have "list_all slug_char ''-''"
    by (simp add: slug_char_def)
  moreover have "\<forall>c\<in>set ?kept. \<not> isWhiteSpace c \<longrightarrow> slug_char c"
    by (auto intro: slug_keep_cases)
  ultimately have "list_all slug_char (replace_runs isWhiteSpace ''-'' ?kept)"
    by (rule replace_runs_all)
  then have "list_all slug_char
      (replace_runs is_hyphen ''-'' (replace_runs isWhiteSpace ''-'' ?kept))"
    by (intro replace_runs_all) (simp_all add: slug_char_def list_all_iff)
  then show ?thesis
    unfolding generatedSlug_def by (rule strip_hyphens_all)
qed

text \<open>
  Claim C10.  Whatever the title, the slug that the title effect writes (the generated
  slug, or the empty slug for a blank title) consists of lowercase letters, digits and
  hyphens only, so it matches the pattern of the slug field and the slug rule of the
  schema reports nothing for it.
\<close>

theorem generated_slug_matches_pattern:
  "slug_regex (generatedSlug title) \<and> slug_regex (slugEffect title) \<and>
   success (z_slug [Key ''slug''] (Some (slugEffect title))) \<and>
   issues (z_slug [Key ''slug''] (Some (slugEffect title))) = []"
  by (simp add: slugEffect_def generatedSlug_chars slug_regex_def success_def issues_def
      z_slug_def z_optional_def z_string_def str_regex_def checked_def)

section \<open>Facts about the zod fragment\<close>

lemma stripHtmlTags_plain: "CHR ''<'' \<notin> set s \<Longrightarrow> stripHtmlTags s = s"
  by (induction s) auto

lemmas zdefs = merge_def merge_status_def checked_def z_string_def z_number_def z_optional_def
  z_required_def z_enum_def z_array_def z_slug_def str_min_def str_max_def str_regex_def str_refine_def
  num_min_def num_max_def faqSchema_def pickupGuidelinesField_def slug_regex_def

lemma fst_merge_Valid: "fst (merge ps) = Valid \<longleftrightarrow> list_all (\<lambda>r. fst r = Valid) ps"
proof -
  have "\<And>x. x \<in> set ps \<Longrightarrow> fst x \<noteq> Aborted \<Longrightarrow> fst x \<noteq> Dirty \<Longrightarrow> fst x = Valid"
    by (metis pstatus.exhaust)
  then show ?thesis
    by (force simp: merge_def merge_status_def list_all_iff)
qed

lemma fst_merge_Aborted: "fst (merge ps) = Aborted \<longleftrightarrow> list_ex (\<lambda>r. fst r = Aborted) ps"
  by (force simp: merge_def merge_status_def list_ex_iff image_iff)

lemma refine_Aborted: "fst inner = Aborted \<Longrightarrow> refine c p m d inner = inner"
  by (simp add: refine_def)

lemma fst_refine_Aborted: "fst (refine c p m d inner) = Aborted \<longleftrightarrow> fst inner = Aborted"
  by (simp add: refine_def)

lemma fst_refine_Valid: "fst (refine c p m d inner) = Valid \<longleftrightarrow> fst inner = Valid \<and> c d"
  by (auto simp: refine_def)

lemma snd_refine:
  "fst inner \<noteq> Aborted \<Longrightarrow>
   snd (refine c p m d inner) = snd inner @ (if c d then [] else [(p, Msg m)])"
  by (simp add: refine_def)

section \<open>What a chain of refinements reports\<close>

lemma tourSchema_Valid:
  "fst (tourSchema strip d) = Valid \<longleftrightarrow>
   fst (tourObject strip d) = Valid \<and> tour_priceCheck d \<and> tour_personCheck d \<and>
   tour_vehicleCheck d"
  by (auto simp: tourSchema_def fst_refine_Valid)

lemma tourSchema_issues:
  "fst (tourObject strip d) \<noteq> Aborted \<Longrightarrow>
   snd (tourSchema strip d) =
     snd (tourObject strip d)
     @ (if tour_priceCheck d then []
        else [([Key ''newPrice''], Msg ''New price must be less than or equal to old price'')])
     @ (if tour_personCheck d then []
        else [([Key ''maximumPerson''],
               Msg ''Maximum persons must be greater than minimum persons'')])
     @ (if tour_vehicleCheck d then []
        else [([Key ''vehicle''], Msg ''Vehicle is required for private tours'')])"
  by (simp add: tourSchema_def snd_refine fst_refine_Aborted)

lemma tourSchema_Aborted:
  "fst (tourObject strip d) = Aborted \<Longrightarrow> tourSchema strip d = tourObject strip d"
  by (simp add: tourSchema_def refine_Aborted)

lemma editTourSchema_Valid:
  "fst (editTourSchema d) = Valid \<longleftrightarrow>
   fst (editTourObject d) = Valid \<and> editTour_priceCheck d \<and> editTour_personCheck d"
  by (auto simp: editTourSchema_def fst_refine_Valid)

lemma editTourSchema_issues:
  "fst (editTourObject d) \<noteq> Aborted \<Longrightarrow>
   snd (editTourSchema d) =
     snd (editTourObject d)
     @ (if editTour_priceCheck d then []
        else [([Key ''newPrice''], Msg ''New price must be less than or equal to old price'')])
     @ (if editTour_personCheck d then []
        else [([Key ''maximumPerson''],
               Msg ''Maximum persons must be greater than minimum persons'')])"
  by (simp add: editTourSchema_def snd_refine fst_refine_Aborted)

lemma editTourSchema_Aborted:
  "fst (editTourObject d) = Aborted \<Longrightarrow> editTourSchema d = editTourObject d"
  by (simp add: editTourSchema_def refine_Aborted)

lemma transferSchema_Valid:
  "fst (transferSchema strip d) = Valid \<longleftrightarrow>
   fst (transferObject strip d) = Valid \<and> transfer_priceCheck d \<and> transfer_requiredCheck d \<and>
   transfer_personCheck d \<and> transfer_routeCheck d \<and> transfer_pickupLocationCheck d \<and>
   transfer_pickupGuidelinesCheck d \<and> transfer_vehicleCheck d"
  by (auto simp: transferSchema_def fst_refine_Valid)

lemma transferSchema_issues:
  "fst (transferObject strip d) \<noteq> Aborted \<Longrightarrow>
   snd (transferSchema strip d) =
     snd (transferObject strip d)
     @ (if transfer_priceCheck d then []
        else [([Key ''newPrice''], Msg ''New price must be less than or equal to old price'')])
     @ (if transfer_requiredCheck d then []
        else [([Key ''type''],
               Msg ''Child price, minimum persons, and maximum persons are required for non-Private transfers'')])
     @ (if transfer_personCheck d then []
        else [([Key ''maximumPerson''],
               Msg ''Maximum persons must be greater than minimum persons'')])
     @ (if transfer_routeCheck d then []
        else [([Key ''to''], Msg ''From and To locations must be different'')])
     @ (if transfer_pickupLocationCheck d then []
        else [([Key ''details.pickupLocation''],
               Msg ''Pickup location must be at least 10 characters'')])
     @ (if transfer_pickupGuidelinesCheck d then []
        else [([Key ''details.pickupGuidelines''],
               Msg ''Pickup guidelines must be at least 15 characters'')])
     @ (if transfer_vehicleCheck d then []
        else [([Key ''vehicle''], Msg ''Vehicle name is required for private transfers'')])"
  by (simp add: transferSchema_def snd_refine fst_refine_Aborted)

lemma transferSchema_Aborted:
  "fst (transferObject strip d) = Aborted \<Longrightarrow> transferSchema strip d = transferObject strip d"
  by (simp add: transferSchema_def refine_Aborted)


lemma tourObject_description:
  "fst (tourObject strip d) = Valid \<Longrightarrow>
   50 \<le> length (t_description d) \<and> length (t_description d) \<le> 110"
  by (simp add: tourObject_def fst_merge_Valid)
     (simp add: z_string_def checked_def str_min_def str_max_def split: if_splits)

lemma editTourObject_description:
  "fst (editTourObject d) = Valid \<Longrightarrow>
   50 \<le> length (e_description d) \<and> length (e_description d) \<le> 200"
  by (simp add: editTourObject_def fst_merge_Valid)
     (simp add: z_string_def checked_def str_min_def str_max_def split: if_splits)

lemma transferObject_pickupGuidelines:
  "fst (transferObject strip d) = Valid \<Longrightarrow>
   xd_pickupGuidelines (x_details d) = [] \<or>
   15 \<le> length (strip (xd_pickupGuidelines (x_details d)))"
  by (simp add: transferObject_def transferDetailsSchema_def fst_merge_Valid)
     (simp add: pickupGuidelinesField_def z_string_def checked_def str_refine_def split: if_splits)

lemmas eval_defs = tourObject_def tourDetailsSchema_def editTourObject_def
  editTourDetailsSchema_def transferObject_def transferDetailsSchema_def
  valid_tour_def valid_editTour_def valid_transfer_def zdefs stripHtmlTags_plain
  enumerate_eq_zip

section \<open>Where an issue of the field pass can sit\<close>

lemma in_merge: "x \<in> set (snd (merge ps)) \<longleftrightarrow> (\<exists>r\<in>set ps. x \<in> set (snd r))"
  by (auto simp: merge_def)

lemma in_checked: "(q, m) \<in> set (snd (checked p ms)) \<longleftrightarrow> q = p \<and> m \<in> set ms"
  by (auto simp: checked_def)

lemma in_z_string:
  "(q, m) \<in> set (snd (z_string cs p v)) \<Longrightarrow> q = p \<and> (\<exists>c\<in>set cs. m \<in> set (c v))"
  by (auto simp: z_string_def in_checked)

lemma in_z_number:
  "(q, m) \<in> set (snd (z_number cs p v)) \<Longrightarrow>
   q = p \<and> (m = Default invalid_type \<or> (\<exists>c\<in>set cs. \<exists>x. m \<in> set (c x)))"
  by (auto simp: z_number_def in_checked split: jsnumber.splits)

lemma in_z_enum: "(q, m) \<in> set (snd (z_enum vals p v)) \<Longrightarrow> q = p \<and> m = Default invalid_enum_value"
  by (auto simp: z_enum_def split: if_splits)

lemma in_z_optional:
  "(q, m) \<in> set (snd (z_optional inner p v)) \<Longrightarrow> \<exists>x. (q, m) \<in> set (snd (inner p x))"
  by (auto simp: z_optional_def split: option.splits)

lemma in_z_required:
  "(q, m) \<in> set (snd (z_required inner p v)) \<Longrightarrow>
   (q = p \<and> m = Default invalid_type) \<or> (\<exists>x. (q, m) \<in> set (snd (inner p x)))"
  by (auto simp: z_required_def split: option.splits)

lemma in_z_slug: "(q, m) \<in> set (snd (z_slug p v)) \<Longrightarrow> q = p"
  by (auto simp: z_slug_def dest!: in_z_optional in_z_string)

lemma in_z_array:
  "(q, m) \<in> set (snd (z_array elem n mm p vs)) \<Longrightarrow>
   q = p \<or> (\<exists>i v. (q, m) \<in> set (snd (elem (p @ [Idx i]) v)))"
  by (auto simp: z_array_def in_merge in_checked split: if_splits)

lemma in_faqSchema: "(q, m) \<in> set (snd (faqSchema p f)) \<Longrightarrow> \<exists>r. q = p @ r"
  by (auto simp: faqSchema_def in_merge dest!: in_z_string)

lemma in_tourDetailsSchema:
  "(q, m) \<in> set (snd (tourDetailsSchema strip p d)) \<Longrightarrow> \<exists>r. q = p @ r"
  by (auto simp: tourDetailsSchema_def pickupGuidelinesField_def in_merge
      dest!: in_z_string in_z_array in_faqSchema)

lemma in_editTourDetailsSchema:
  "(q, m) \<in> set (snd (editTourDetailsSchema p d)) \<Longrightarrow> \<exists>r. q = p @ r"
  by (auto simp: editTourDetailsSchema_def in_merge
      dest!: in_z_optional in_z_string in_z_array in_faqSchema)

lemma in_transferDetailsSchema:
  "(q, m) \<in> set (snd (transferDetailsSchema strip p d)) \<Longrightarrow> \<exists>r. q = p @ r"
  by (auto simp: transferDetailsSchema_def pickupGuidelinesField_def in_merge
      dest!: in_z_optional in_z_string in_z_enum in_z_array in_faqSchema)

lemma tourObject_no_person_issue:
  "([Key ''maximumPerson''], Msg ''Maximum persons must be greater than minimum persons'')
     \<notin> set (snd (tourObject strip d))"
  by (auto simp: tourObject_def in_merge num_min_def
      dest!: in_z_slug in_z_required in_z_optional in_z_string in_z_number in_z_enum in_z_array
        in_tourDetailsSchema split: if_splits)

lemma editTourObject_no_person_issue:
  "([Key ''maximumPerson''], Msg ''Maximum persons must be greater than minimum persons'')
     \<notin> set (snd (editTourObject d))"
  by (auto simp: editTourObject_def in_merge num_min_def
      dest!: in_z_slug in_z_required in_z_optional in_z_string in_z_number in_z_enum in_z_array
        in_editTourDetailsSchema split: if_splits)

text \<open>The field pass never reports the entry of a refinement.\<close>

lemma tourObject_no_refinement_issue:
  "([Key ''newPrice''], Msg ''New price must be less than or equal to old price'')
     \<notin> set (snd (tourObject strip d)) \<and>
   ([Key ''maximumPerson''], Msg ''Maximum persons must be greater than minimum persons'')
     \<notin> set (snd (tourObject strip d)) \<and>
   ([Key ''vehicle''], Msg ''Vehicle is required for private tours'')
     \<notin> set (snd (tourObject strip d))"
  by (auto simp: tourObject_def in_merge num_min_def
      dest!: in_z_slug in_z_required in_z_optional in_z_string in_z_number in_z_enum in_z_array
        in_tourDetailsSchema split: if_splits)

lemma transferObject_no_refinement_issue:
  "([Key ''newPrice''], Msg ''New price must be less than or equal to old price'')
     \<notin> set (snd (transferObject strip d)) \<and>
   ([Key ''type''],
     Msg ''Child price, minimum persons, and maximum persons are required for non-Private transfers'')
     \<notin> set (snd (transferObject strip d)) \<and>
   ([Key ''maximumPerson''], Msg ''Maximum persons must be greater than minimum persons'')
     \<notin> set (snd (transferObject strip d)) \<and>
   ([Key ''to''], Msg ''From and To locations must be different'')
     \<notin> set (snd (transferObject strip d)) \<and>
   ([Key ''details.pickupLocation''], Msg ''Pickup location must be at least 10 characters'')
     \<notin> set (snd (transferObject strip d)) \<and>
   ([Key ''details.pickupGuidelines''], Msg ''Pickup guidelines must be at least 15 characters'')
     \<notin> set (snd (transferObject strip d)) \<and>
   ([Key ''vehicle''], Msg ''Vehicle name is required for private transfers'')
     \<notin> set (snd (transferObject strip d))"
  by (auto simp: transferObject_def in_merge num_min_def str_min_def
      dest!: in_z_slug in_z_required in_z_optional in_z_string in_z_number in_z_enum in_z_array
        in_transferDetailsSchema split: if_splits)

section \<open>Which fields abort the field pass\<close>

lemma z_string_not_Aborted: "fst (z_string cs p v) \<noteq> Aborted"
  by (simp add: z_string_def checked_def)

lemma z_number_Aborted: "fst (z_number cs p v) = Aborted \<longleftrightarrow> v = NaN"
  by (simp add: z_number_def checked_def split: jsnumber.splits)

lemma z_enum_Aborted: "fst (z_enum vals p v) = Aborted \<longleftrightarrow> v \<notin> set vals"
  by (simp add: z_enum_def)

lemma z_optional_number_Aborted:
  "fst (z_optional (z_number cs) p v) = Aborted \<longleftrightarrow> v = Some NaN"
  by (simp add: z_optional_def z_number_Aborted split: option.splits)

lemma z_optional_string_not_Aborted: "fst (z_optional (z_string cs) p v) \<noteq> Aborted"
  by (simp add: z_optional_def z_string_not_Aborted split: option.splits)

lemma z_required_string_Aborted:
  "fst (z_required (z_string cs) p v) = Aborted \<longleftrightarrow> v = None"
  by (simp add: z_required_def z_string_not_Aborted split: option.splits)

lemma z_slug_not_Aborted: "fst (z_slug p v) \<noteq> Aborted"
  by (simp add: z_slug_def z_optional_string_not_Aborted)

lemma z_array_Aborted:
  "fst (z_array elem n m p vs) = Aborted \<longleftrightarrow>
   (\<exists>r\<in>set (enumerate 0 vs). fst (elem (p @ [Idx (fst r)]) (snd r)) = Aborted)"
  by (simp add: z_array_def fst_merge_Aborted list_ex_iff checked_def case_prod_beta)

lemma z_array_strings_not_Aborted: "fst (z_array (z_string cs) n m p vs) \<noteq> Aborted"
  by (simp add: z_array_Aborted z_string_not_Aborted)

lemma faqSchema_not_Aborted: "fst (faqSchema p f) \<noteq> Aborted"
  by (simp add: faqSchema_def fst_merge_Aborted z_string_not_Aborted)

lemma z_array_faq_not_Aborted: "fst (z_array faqSchema n m p vs) \<noteq> Aborted"
  by (simp add: z_array_Aborted faqSchema_not_Aborted)

lemmas not_Aborted = z_string_not_Aborted z_number_Aborted z_enum_Aborted
  z_required_string_Aborted
  z_optional_number_Aborted z_optional_string_not_Aborted z_slug_not_Aborted
  z_array_strings_not_Aborted z_array_faq_not_Aborted

lemma tourObject_Aborted:
  "fst (tourObject strip d) = Aborted \<longleftrightarrow>
   t_image d = None \<or> t_type d \<notin> {''co-tour'', ''private''} \<or> t_period d \<notin> {''Half-Day'', ''Full-Day''} \<or>
   t_bookedCount d = NaN \<or> t_oldPrice d = NaN \<or> t_newPrice d = NaN \<or> t_childPrice d = NaN \<or>
   t_minimumPerson d = NaN \<or> t_maximumPerson d = NaN \<or> t_seatCapacity d = Some NaN \<or>
   t_label d \<notin> {''Recommended'', ''Popular'', ''Best Value'', ''Best seller'', ''None''}"
  by (simp add: tourObject_def tourDetailsSchema_def pickupGuidelinesField_def
      fst_merge_Aborted not_Aborted)

lemma editTourObject_Aborted:
  "fst (editTourObject d) = Aborted \<longleftrightarrow>
   e_image d = None \<or> e_type d \<notin> {''co-tour'', ''private''} \<or> e_period d \<notin> {''Half-Day'', ''Full-Day''} \<or>
   e_bookedCount d = NaN \<or> e_rating d = Some NaN \<or> e_reviewCount d = Some NaN \<or>
   e_oldPrice d = NaN \<or> e_newPrice d = NaN \<or> e_childPrice d = NaN \<or>
   e_minimumPerson d = NaN \<or> e_maximumPerson d = NaN \<or> e_seatCapacity d = Some NaN \<or>
   e_label d \<notin> {''Recommended'', ''Popular'', ''Best Value'', ''Best Seller'', ''None''}"
  by (simp add: editTourObject_def editTourDetailsSchema_def fst_merge_Aborted not_Aborted)

lemma transferObject_Aborted:
  "fst (transferObject strip d) = Aborted \<longleftrightarrow>
   x_image d = None \<or> x_type d \<notin> {''Van'', ''Van + Ferry'', ''Private''} \<or> x_bookedCount d = NaN \<or>
   x_rating d = Some NaN \<or> x_reviewCount d = Some NaN \<or> x_oldPrice d = NaN \<or>
   x_newPrice d = NaN \<or> x_childPrice d = Some NaN \<or> x_minimumPerson d = Some NaN \<or>
   x_maximumPerson d = Some NaN \<or> x_seatCapacity d = NaN \<or>
   x_label d \<notin> {''Recommended'', ''Popular'', ''Best Value'', ''Best seller'', ''None''} \<or>
   xd_pickupOption (x_details d) \<notin> {''admin'', ''user''}"
  by (simp add: transferObject_def transferDetailsSchema_def pickupGuidelinesField_def
      fst_merge_Aborted not_Aborted)

section \<open>No issues exactly when the parse succeeds\<close>

lemma checked_coherent: "(fst (checked p ms) = Valid) = (snd (checked p ms) = [])"
  by (simp add: checked_def)

lemma merge_coherent:
  "\<forall>r\<in>set ps. (fst r = Valid) = (snd r = []) \<Longrightarrow>
   (fst (merge ps) = Valid) = (snd (merge ps) = [])"
  by (simp add: fst_merge_Valid list_all_iff) (simp add: merge_def)

lemma z_string_coherent: "(fst (z_string cs p v) = Valid) = (snd (z_string cs p v) = [])"
  by (simp add: z_string_def checked_def)

lemma z_number_coherent: "(fst (z_number cs p v) = Valid) = (snd (z_number cs p v) = [])"
  by (simp add: z_number_def checked_def split: jsnumber.splits)

lemma z_enum_coherent: "(fst (z_enum vals p v) = Valid) = (snd (z_enum vals p v) = [])"
  by (simp add: z_enum_def)

lemma z_optional_string_coherent:
  "(fst (z_optional (z_string cs) p v) = Valid) = (snd (z_optional (z_string cs) p v) = [])"
  by (simp add: z_optional_def z_string_coherent split: option.splits)

lemma z_optional_number_coherent:
  "(fst (z_optional (z_number cs) p v) = Valid) = (snd (z_optional (z_number cs) p v) = [])"
  by (simp add: z_optional_def z_number_coherent split: option.splits)

lemma z_required_string_coherent:
  "(fst (z_required (z_string cs) p v) = Valid) = (snd (z_required (z_string cs) p v) = [])"
  by (simp add: z_required_def z_string_coherent split: option.splits)

lemma z_slug_coherent: "(fst (z_slug p v) = Valid) = (snd (z_slug p v) = [])"
  by (simp add: z_slug_def z_optional_string_coherent)

lemma z_array_coherent:
  "(\<And>q v. (fst (elem q v) = Valid) = (snd (elem q v) = [])) \<Longrightarrow>
   (fst (z_array elem n m p vs) = Valid) = (snd (z_array elem n m p vs) = [])"
  unfolding z_array_def
  by (rule merge_coherent) (auto simp: checked_def)

lemma faqSchema_coherent: "(fst (faqSchema p f) = Valid) = (snd (faqSchema p f) = [])"
  unfolding faqSchema_def
  by (rule merge_coherent) (simp add: z_string_coherent)

lemmas coherent = z_string_coherent z_number_coherent z_enum_coherent z_optional_string_coherent
  z_required_string_coherent
  z_optional_number_coherent z_slug_coherent z_array_coherent faqSchema_coherent

lemma tourDetailsSchema_coherent:
  "(fst (tourDetailsSchema strip p d) = Valid) = (snd (tourDetailsSchema strip p d) = [])"
  unfolding tourDetailsSchema_def pickupGuidelinesField_def
  by (rule merge_coherent) (simp add: coherent)

lemma editTourDetailsSchema_coherent:
  "(fst (editTourDetailsSchema p d) = Valid) = (snd (editTourDetailsSchema p d) = [])"
  unfolding editTourDetailsSchema_def
  by (rule merge_coherent) (simp add: coherent)

lemma transferDetailsSchema_coherent:
  "(fst (transferDetailsSchema strip p d) = Valid) = (snd (transferDetailsSchema strip p d) = [])"
  unfolding transferDetailsSchema_def pickupGuidelinesField_def
  by (rule merge_coherent) (simp add: coherent)

lemma tourObject_coherent:
  "(fst (tourObject strip d) = Valid) = (snd (tourObject strip d) = [])"
  unfolding tourObject_def
  by (rule merge_coherent) (simp add: coherent tourDetailsSchema_coherent)

lemma editTourObject_coherent:
  "(fst (editTourObject d) = Valid) = (snd (editTourObject d) = [])"
  unfolding editTourObject_def
  by (rule merge_coherent) (simp add: coherent editTourDetailsSchema_coherent)

lemma transferObject_coherent:
  "(fst (transferObject strip d) = Valid) = (snd (transferObject strip d) = [])"
  unfolding transferObject_def
  by (rule merge_coherent) (simp add: coherent transferDetailsSchema_coherent)

lemma refine_coherent:
  "(fst inner = Valid) = (snd inner = []) \<Longrightarrow>
   (fst (refine c p m d inner) = Valid) = (snd (refine c p m d inner) = [])"
  by (auto simp: refine_def)

lemma tourSchema_coherent: "success (tourSchema strip d) \<longleftrightarrow> issues (tourSchema strip d) = []"
  unfolding tourSchema_def success_def issues_def
  by (intro refine_coherent tourObject_coherent)

lemma editTourSchema_coherent: "success (editTourSchema d) \<longleftrightarrow> issues (editTourSchema d) = []"
  unfolding editTourSchema_def success_def issues_def
  by (intro refine_coherent editTourObject_coherent)

lemma transferSchema_coherent:
  "success (transferSchema strip d) \<longleftrightarrow> issues (transferSchema strip d) = []"
  unfolding transferSchema_def success_def issues_def
  by (intro refine_coherent transferObject_coherent)

lemma schema_passes_then_faq_decides:
  "(issues (tourSchema strip (tf_values st)) = [] \<longrightarrow>
      tf_validationSuccess (tour_handleShowErrors strip st) =
        (validFaqs (td_faq (t_details (tf_values st))) \<noteq> [])) \<and>
   (issues (transferSchema strip (xf_values xt)) = [] \<longrightarrow>
      xf_validationSuccess (transfer_handleShowErrors strip xt) =
        (validFaqs (xd_faq (x_details (xf_values xt))) \<noteq> []))"
  by (simp add: tour_handleShowErrors_def transfer_handleShowErrors_def Let_def
      tourSchema_coherent transferSchema_coherent)

section \<open>Evaluating the schemas at concrete drafts\<close>

lemma toLowerCase_length_neq: "length a \<noteq> length b \<Longrightarrow> toLowerCase a \<noteq> toLowerCase b"
  by (metis length_map toLowerCase_def)

lemmas transfer_checks = transfer_priceCheck_def transfer_requiredCheck_def
  transfer_personCheck_def transfer_routeCheck_def transfer_pickupLocationCheck_def
  transfer_pickupGuidelinesCheck_def transfer_vehicleCheck_def toLowerCase_length_neq

lemma transferSchema_accepts:
  "transferObject strip d = (Valid, []) \<Longrightarrow> transfer_priceCheck d \<Longrightarrow>
   transfer_requiredCheck d \<Longrightarrow> transfer_personCheck d \<Longrightarrow> transfer_routeCheck d \<Longrightarrow>
   transfer_pickupLocationCheck d \<Longrightarrow> transfer_pickupGuidelinesCheck d \<Longrightarrow>
   transfer_vehicleCheck d \<Longrightarrow> transferSchema strip d = (Valid, [])"
  by (simp add: prod_eq_iff transferSchema_Valid transferSchema_issues)

lemma transferSchema_valid_transfer: "transferSchema stripHtmlTags valid_transfer = (Valid, [])"
  by (rule transferSchema_accepts)
     (simp_all add: eval_defs transfer_checks)

lemma transferSchema_private_transfer:
  "transferSchema stripHtmlTags private_transfer = (Valid, [])"
  by (rule transferSchema_accepts)
     (simp_all add: private_transfer_def eval_defs transfer_checks)

lemma tourSchema_accepts:
  "tourObject strip d = (Valid, []) \<Longrightarrow> tour_priceCheck d \<Longrightarrow> tour_personCheck d \<Longrightarrow>
   tour_vehicleCheck d \<Longrightarrow> tourSchema strip d = (Valid, [])"
  by (simp add: prod_eq_iff tourSchema_Valid tourSchema_issues)

lemma editTourSchema_accepts:
  "editTourObject d = (Valid, []) \<Longrightarrow> editTour_priceCheck d \<Longrightarrow> editTour_personCheck d \<Longrightarrow>
   editTourSchema d = (Valid, [])"
  by (simp add: prod_eq_iff editTourSchema_Valid editTourSchema_issues)

lemmas tour_checks = tour_priceCheck_def tour_personCheck_def tour_vehicleCheck_def
  editTour_priceCheck_def editTour_personCheck_def

lemma tourSchema_valid_tour: "tourSchema stripHtmlTags valid_tour = (Valid, [])"
  by (rule tourSchema_accepts) (simp_all add: eval_defs tour_checks)

lemma editTourSchema_valid_editTour: "editTourSchema valid_editTour = (Valid, [])"
  by (rule editTourSchema_accepts) (simp_all add: eval_defs tour_checks)

section \<open>The guard of the save handlers\<close>

text \<open>Saving submits only with both flags set, and a change of a watched value clears
  them; both save handlers then ask for a validation.\<close>

lemma handleSaveTour_Submitted:
  "handleSaveTour st = Submitted d \<Longrightarrow>
   tf_hasValidated st \<and> tf_validationSuccess st \<and> d = tf_values st"
  by (auto simp: handleSaveTour_def split: if_splits)

lemma handleSaveTransfer_Submitted:
  "handleSaveTransfer st = Submitted d \<Longrightarrow>
   xf_hasValidated st \<and> xf_validationSuccess st \<and> d = xf_values st"
  by (auto simp: handleSaveTransfer_def split: if_splits)

lemma tour_watched_change_resets:
  "tour_watched (upd (tf_values st)) (arr (tf_arrays st))
     \<noteq> tour_watched (tf_values st) (tf_arrays st) \<Longrightarrow>
   \<not> tf_hasValidated (tour_change upd arr st) \<and>
   handleSaveTour (tour_change upd arr st) = PromptValidateFirst"
  by (simp add: tour_change_def tour_resetEffect_def handleSaveTour_def Let_def)

lemma transfer_watched_change_resets:
  "transfer_watched (upd (xf_values st)) (arr (xf_arrays st))
     \<noteq> transfer_watched (xf_values st) (xf_arrays st) \<Longrightarrow>
   \<not> xf_hasValidated (transfer_change upd arr st) \<and>
   handleSaveTransfer (transfer_change upd arr st) = PromptValidateFirst"
  by (simp add: transfer_change_def transfer_resetEffect_def handleSaveTransfer_def Let_def)

text \<open>A new array of tags, of departure times or of FAQ entries is a changed
  dependency; a write into the entries of the FAQ array is not, whatever it writes.\<close>

lemma replaced_array_resets:
  "arr = new_tags \<or> arr = new_departureTimes \<or> arr = new_faq \<Longrightarrow>
   \<not> tf_hasValidated (tour_change upd arr st) \<and>
   \<not> xf_hasValidated (transfer_change xupd arr xt)"
  by (auto simp: tour_change_def tour_resetEffect_def tour_watched_def transfer_change_def
      transfer_resetEffect_def transfer_watched_def new_tags_def new_departureTimes_def
      new_faq_def Let_def)

lemma faq_entry_write_keeps_flags:
  "tf_hasValidated (tour_change (\<lambda>d. d\<lparr>t_details := (t_details d)\<lparr>td_faq := fs\<rparr>\<rparr>)
      same_arrays st) = tf_hasValidated st \<and>
   tf_validationSuccess (tour_change (\<lambda>d. d\<lparr>t_details := (t_details d)\<lparr>td_faq := fs\<rparr>\<rparr>)
      same_arrays st) = tf_validationSuccess st \<and>
   xf_hasValidated (transfer_change (\<lambda>d. d\<lparr>x_details := (x_details d)\<lparr>xd_faq := fs\<rparr>\<rparr>)
      same_arrays xt) = xf_hasValidated xt \<and>
   xf_validationSuccess (transfer_change (\<lambda>d. d\<lparr>x_details := (x_details d)\<lparr>xd_faq := fs\<rparr>\<rparr>)
      same_arrays xt) = xf_validationSuccess xt"
  by (simp add: tour_change_def tour_watched_def transfer_change_def transfer_watched_def
      same_arrays_def Let_def)

text \<open>The run of the transfer page, state by state.\<close>

lemma run_validated_eq:
  "run_validated = run_start\<lparr>xf_validationSuccess := True, xf_showValidationErrors := True,
     xf_hasValidated := True\<rparr>"
  by (simp add: run_validated_def transfer_handleShowErrors_def run_start_def success_def
        transferSchema_private_transfer)
     (simp add: validFaqs_def trim_def isWhiteSpace_def private_transfer_def valid_transfer_def)

lemma run_changed_eq:
  "run_changed = run_validated\<lparr>xf_values := private_transfer\<lparr>x_seatCapacity := Num 0\<rparr>\<rparr>"
  by (simp add: run_changed_def transfer_change_def transfer_watched_def run_validated_eq
      run_start_def same_arrays_def)

section \<open>Price ordering\<close>

text \<open>
  Claim C1, as the code has it.  In the three schemas (tour creation, tour editing,
  transfer creation) a draft whose \<open>newPrice\<close> is greater than its \<open>oldPrice\<close> never
  validates.  The error set contains the entry of the price refinement, at path
  \<open>newPrice\<close>, whenever the field pass is not aborted, that is, whenever no field has a
  type error (a number field holding \<open>NaN\<close>, an \<open>undefined\<close> image) or a value outside
  its enum (lemmas
  \<open>tourObject_Aborted\<close>, \<open>editTourObject_Aborted\<close>, \<open>transferObject_Aborted\<close>); on an
  aborted field pass the library runs no refinement.
\<close>

theorem price_order_enforced:
  "(js_gt (t_newPrice t) (t_oldPrice t) \<longrightarrow>
      \<not> success (tourSchema strip t) \<and>
      (\<not> aborted (tourObject strip t) \<longrightarrow>
         ([Key ''newPrice''], Msg ''New price must be less than or equal to old price'')
           \<in> set (issues (tourSchema strip t)))) \<and>
   (js_gt (e_newPrice e) (e_oldPrice e) \<longrightarrow>
      \<not> success (editTourSchema e) \<and>
      (\<not> aborted (editTourObject e) \<longrightarrow>
         ([Key ''newPrice''], Msg ''New price must be less than or equal to old price'')
           \<in> set (issues (editTourSchema e)))) \<and>
   (js_gt (x_newPrice x) (x_oldPrice x) \<longrightarrow>
      \<not> success (transferSchema strip x) \<and>
      (\<not> aborted (transferObject strip x) \<longrightarrow>
         ([Key ''newPrice''], Msg ''New price must be less than or equal to old price'')
           \<in> set (issues (transferSchema strip x))))"
  by (simp add: success_def issues_def aborted_def tourSchema_Valid tourSchema_issues
      editTourSchema_Valid editTourSchema_issues transferSchema_Valid transferSchema_issues
      tour_priceCheck_def editTour_priceCheck_def transfer_priceCheck_def)

text \<open>
  The theorem at three drafts with \<open>newPrice = 120\<close> and \<open>oldPrice = 100\<close>.
\<close>

theorem price_order_enforced_witness:
  "js_gt (t_newPrice (valid_tour\<lparr>t_newPrice := Num 120\<rparr>))
         (t_oldPrice (valid_tour\<lparr>t_newPrice := Num 120\<rparr>)) \<and>
   \<not> aborted (tourObject stripHtmlTags (valid_tour\<lparr>t_newPrice := Num 120\<rparr>)) \<and>
   \<not> success (tourSchema stripHtmlTags (valid_tour\<lparr>t_newPrice := Num 120\<rparr>)) \<and>
   ([Key ''newPrice''], Msg ''New price must be less than or equal to old price'')
      \<in> set (issues (tourSchema stripHtmlTags (valid_tour\<lparr>t_newPrice := Num 120\<rparr>))) \<and>
   js_gt (e_newPrice (valid_editTour\<lparr>e_newPrice := Num 120\<rparr>))
         (e_oldPrice (valid_editTour\<lparr>e_newPrice := Num 120\<rparr>)) \<and>
   \<not> aborted (editTourObject (valid_editTour\<lparr>e_newPrice := Num 120\<rparr>)) \<and>
   \<not> success (editTourSchema (valid_editTour\<lparr>e_newPrice := Num 120\<rparr>)) \<and>
   ([Key ''newPrice''], Msg ''New price must be less than or equal to old price'')
      \<in> set (issues (editTourSchema (valid_editTour\<lparr>e_newPrice := Num 120\<rparr>))) \<and>
   js_gt (x_newPrice (valid_transfer\<lparr>x_newPrice := Num 120\<rparr>))
         (x_oldPrice (valid_transfer\<lparr>x_newPrice := Num 120\<rparr>)) \<and>
   \<not> aborted (transferObject stripHtmlTags (valid_transfer\<lparr>x_newPrice := Num 120\<rparr>)) \<and>
   \<not> success (transferSchema stripHtmlTags (valid_transfer\<lparr>x_newPrice := Num 120\<rparr>)) \<and>
   ([Key ''newPrice''], Msg ''New price must be less than or equal to old price'')
      \<in> set (issues (transferSchema stripHtmlTags (valid_transfer\<lparr>x_newPrice := Num 120\<rparr>)))"
proof -
  have t: "js_gt (t_newPrice (valid_tour\<lparr>t_newPrice := Num 120\<rparr>))
         (t_oldPrice (valid_tour\<lparr>t_newPrice := Num 120\<rparr>))"
    by (simp add: valid_tour_def)
  have ta: "\<not> aborted (tourObject stripHtmlTags (valid_tour\<lparr>t_newPrice := Num 120\<rparr>))"
    by (simp add: aborted_def eval_defs)
  have e: "js_gt (e_newPrice (valid_editTour\<lparr>e_newPrice := Num 120\<rparr>))
         (e_oldPrice (valid_editTour\<lparr>e_newPrice := Num 120\<rparr>))"
    by (simp add: valid_editTour_def)
  have ea: "\<not> aborted (editTourObject (valid_editTour\<lparr>e_newPrice := Num 120\<rparr>))"
    by (simp add: aborted_def eval_defs)
  have x: "js_gt (x_newPrice (valid_transfer\<lparr>x_newPrice := Num 120\<rparr>))
         (x_oldPrice (valid_transfer\<lparr>x_newPrice := Num 120\<rparr>))"
    by (simp add: valid_transfer_def)
  have xa: "\<not> aborted (transferObject stripHtmlTags (valid_transfer\<lparr>x_newPrice := Num 120\<rparr>))"
    by (simp add: aborted_def eval_defs)
  show ?thesis
    using t ta e ea x xa
      price_order_enforced [of "valid_tour\<lparr>t_newPrice := Num 120\<rparr>" stripHtmlTags
        "valid_editTour\<lparr>e_newPrice := Num 120\<rparr>" "valid_transfer\<lparr>x_newPrice := Num 120\<rparr>"]
    by blast
qed

text \<open>
  The claim without the proviso fails: with an empty \<open>bookedCount\<close> input (\<open>NaN\<close>) the
  only issue reported is the type error of \<open>bookedCount\<close>, although \<open>newPrice\<close> exceeds
  \<open>oldPrice\<close>.
\<close>

theorem price_order_counterexample:
  "js_gt (t_newPrice (valid_tour\<lparr>t_bookedCount := NaN, t_newPrice := Num 120\<rparr>))
         (t_oldPrice (valid_tour\<lparr>t_bookedCount := NaN, t_newPrice := Num 120\<rparr>)) \<and>
   issues (tourSchema stripHtmlTags (valid_tour\<lparr>t_bookedCount := NaN, t_newPrice := Num 120\<rparr>))
     = [([Key ''bookedCount''], Default invalid_type)]"
proof -
  have "tourObject stripHtmlTags (valid_tour\<lparr>t_bookedCount := NaN, t_newPrice := Num 120\<rparr>)
     = (Aborted, [([Key ''bookedCount''], Default invalid_type)])"
    by (simp add: eval_defs)
  then show ?thesis
    by (simp add: issues_def tourSchema_Aborted) (simp add: valid_tour_def)
qed

section \<open>The second validation phase: FAQ completeness\<close>

text \<open>
  Claim C2.  On both creation pages, when the schema reports no issue for the current
  values but no FAQ entry has a question and an answer that are both non-blank after
  trimming, the Validate handler records a validation (\<open>hasValidated\<close>) that did not
  succeed (\<open>validationSuccess\<close> is false), although the schema parse succeeded.
\<close>

theorem faq_completeness_second_phase:
  "(issues (tourSchema strip (tf_values st)) = [] \<and>
    validFaqs (td_faq (t_details (tf_values st))) = [] \<longrightarrow>
      success (tourSchema strip (tf_values st)) \<and>
      tf_hasValidated (tour_handleShowErrors strip st) \<and>
      \<not> tf_validationSuccess (tour_handleShowErrors strip st)) \<and>
   (issues (transferSchema strip (xf_values xt)) = [] \<and>
    validFaqs (xd_faq (x_details (xf_values xt))) = [] \<longrightarrow>
      success (transferSchema strip (xf_values xt)) \<and>
      xf_hasValidated (transfer_handleShowErrors strip xt) \<and>
      \<not> xf_validationSuccess (transfer_handleShowErrors strip xt))"
  by (simp add: tour_handleShowErrors_def transfer_handleShowErrors_def Let_def
      tourSchema_coherent transferSchema_coherent)

text \<open>
  The theorem at a tour draft with no FAQ entry and at a transfer draft whose only
  entry has a blank answer.
\<close>

theorem faq_completeness_second_phase_witness:
  "issues (tourSchema stripHtmlTags (tf_values
      \<lparr>tf_values = valid_tour\<lparr>t_details := (t_details valid_tour)\<lparr>td_faq := []\<rparr>\<rparr>,
       tf_arrays = \<lparr>tags_id = 0, departureTimes_id = 0, faq_id = 0\<rparr>,
       tf_hasValidated = False, tf_validationSuccess = False,
       tf_showValidationErrors = False\<rparr>)) = [] \<and>
   validFaqs (td_faq (t_details (tf_values
      \<lparr>tf_values = valid_tour\<lparr>t_details := (t_details valid_tour)\<lparr>td_faq := []\<rparr>\<rparr>,
       tf_arrays = \<lparr>tags_id = 0, departureTimes_id = 0, faq_id = 0\<rparr>,
       tf_hasValidated = False, tf_validationSuccess = False,
       tf_showValidationErrors = False\<rparr>))) = [] \<and>
   \<not> tf_validationSuccess (tour_handleShowErrors stripHtmlTags
      \<lparr>tf_values = valid_tour\<lparr>t_details := (t_details valid_tour)\<lparr>td_faq := []\<rparr>\<rparr>,
       tf_arrays = \<lparr>tags_id = 0, departureTimes_id = 0, faq_id = 0\<rparr>,
       tf_hasValidated = False, tf_validationSuccess = False,
       tf_showValidationErrors = False\<rparr>) \<and>
   issues (transferSchema stripHtmlTags (xf_values
      \<lparr>xf_values = valid_transfer\<lparr>x_details := (x_details valid_transfer)
         \<lparr>xd_faq := [\<lparr>question = ''Q'', answer = '' ''\<rparr>]\<rparr>\<rparr>,
       xf_arrays = \<lparr>tags_id = 0, departureTimes_id = 0, faq_id = 0\<rparr>,
       xf_hasValidated = False, xf_validationSuccess = False,
       xf_showValidationErrors = False, xf_uploadedImageUrl = []\<rparr>)) = [] \<and>
   validFaqs (xd_faq (x_details (xf_values
      \<lparr>xf_values = valid_transfer\<lparr>x_details := (x_details valid_transfer)
         \<lparr>xd_faq := [\<lparr>question = ''Q'', answer = '' ''\<rparr>]\<rparr>\<rparr>,
       xf_arrays = \<lparr>tags_id = 0, departureTimes_id = 0, faq_id = 0\<rparr>,
       xf_hasValidated = False, xf_validationSuccess = False,
       xf_showValidationErrors = False, xf_uploadedImageUrl = []\<rparr>))) = [] \<and>
   \<not> xf_validationSuccess (transfer_handleShowErrors stripHtmlTags
      \<lparr>xf_values = valid_transfer\<lparr>x_details := (x_details valid_transfer)
         \<lparr>xd_faq := [\<lparr>question = ''Q'', answer = '' ''\<rparr>]\<rparr>\<rparr>,
       xf_arrays = \<lparr>tags_id = 0, departureTimes_id = 0, faq_id = 0\<rparr>,
       xf_hasValidated = False, xf_validationSuccess = False,
       xf_showValidationErrors = False, xf_uploadedImageUrl = []\<rparr>)"
proof -
  let ?t = "valid_tour\<lparr>t_details := (t_details valid_tour)\<lparr>td_faq := []\<rparr>\<rparr>"
  let ?x = "valid_transfer\<lparr>x_details := (x_details valid_transfer)
         \<lparr>xd_faq := [\<lparr>question = ''Q'', answer = '' ''\<rparr>]\<rparr>\<rparr>"
  have "tourSchema stripHtmlTags ?t = (Valid, [])"
    by (rule tourSchema_accepts) (simp_all add: eval_defs tour_checks)
  then have a: "issues (tourSchema stripHtmlTags ?t) = []"
    by (simp add: issues_def)
  have b: "validFaqs (td_faq (t_details ?t)) = []"
    by (simp add: validFaqs_def)
  have "transferSchema stripHtmlTags ?x = (Valid, [])"
    by (rule transferSchema_accepts) (simp_all add: eval_defs transfer_checks)
  then have c: "issues (transferSchema stripHtmlTags ?x) = []"
    by (simp add: issues_def)
  have d: "validFaqs (xd_faq (x_details ?x)) = []"
    by (simp add: validFaqs_def trim_def isWhiteSpace_def)
  show ?thesis
    using a b c d
      faq_completeness_second_phase [of stripHtmlTags
        "\<lparr>tf_values = ?t, tf_arrays = \<lparr>tags_id = 0, departureTimes_id = 0, faq_id = 0\<rparr>,
          tf_hasValidated = False, tf_validationSuccess = False,
          tf_showValidationErrors = False\<rparr>"
        "\<lparr>xf_values = ?x, xf_arrays = \<lparr>tags_id = 0, departureTimes_id = 0, faq_id = 0\<rparr>,
          xf_hasValidated = False, xf_validationSuccess = False,
          xf_showValidationErrors = False, xf_uploadedImageUrl = []\<rparr>"]
    by simp
qed

section \<open>The admin-defined pickup location of a transfer\<close>

text \<open>
  Claim C3 does not hold of the code.  The refinement of the transfer schema measures
  the raw length of \<open>details.pickupLocation\<close>, where the tour schema measures the same
  field after \<open>stripHtmlTags\<close>: the transfer draft whose pickup location is
  \<open><div>hi</div>\<close> (13 characters, 2 after stripping) is accepted with no issue.
\<close>

theorem markup_padded_pickup_location_accepted:
  "xd_pickupOption (x_details padded_pickup_transfer) = ''admin'' \<and>
   xd_pickupLocation (x_details padded_pickup_transfer) = Some ''<div>hi</div>'' \<and>
   length (stripHtmlTags ''<div>hi</div>'') = 2 \<and>
   success (transferSchema stripHtmlTags padded_pickup_transfer) \<and>
   issues (transferSchema stripHtmlTags padded_pickup_transfer) = []"
proof -
  have "transferSchema stripHtmlTags padded_pickup_transfer = (Valid, [])"
    by (rule transferSchema_accepts)
       (simp_all add: padded_pickup_transfer_def eval_defs transfer_checks)
  then show ?thesis
    by (simp add: success_def issues_def padded_pickup_transfer_def valid_transfer_def)
qed

section \<open>Pickup guidelines of a transfer\<close>

text \<open>
  Claim C4.  Whatever the markup stripper, a transfer draft validates only if the
  stripped length of \<open>details.pickupGuidelines\<close> is at least 15; in particular empty
  guidelines never validate, although the field rule alone accepts the empty string.
\<close>

theorem pickup_guidelines_always_required:
  "(success (transferSchema strip d) \<longrightarrow>
      15 \<le> length (strip (xd_pickupGuidelines (x_details d)))) \<and>
   (xd_pickupGuidelines (x_details d) = [] \<longrightarrow> \<not> success (transferSchema strip d)) \<and>
   success (pickupGuidelinesField strip p [])"
  using transferObject_pickupGuidelines [of strip d]
  by (auto simp: success_def transferSchema_Valid transfer_pickupGuidelinesCheck_def
      pickupGuidelinesField_def z_string_def checked_def str_refine_def)

text \<open>
  The theorem at the accepted transfer and at the same draft with empty guidelines.
\<close>

theorem pickup_guidelines_always_required_witness:
  "success (transferSchema stripHtmlTags valid_transfer) \<and>
   15 \<le> length (stripHtmlTags (xd_pickupGuidelines (x_details valid_transfer))) \<and>
   xd_pickupGuidelines (x_details (valid_transfer\<lparr>x_details :=
      (x_details valid_transfer)\<lparr>xd_pickupGuidelines := []\<rparr>\<rparr>)) = [] \<and>
   \<not> success (transferSchema stripHtmlTags (valid_transfer\<lparr>x_details :=
      (x_details valid_transfer)\<lparr>xd_pickupGuidelines := []\<rparr>\<rparr>))"
proof -
  have a: "success (transferSchema stripHtmlTags valid_transfer)"
    by (simp add: success_def transferSchema_valid_transfer)
  have b: "xd_pickupGuidelines (x_details (valid_transfer\<lparr>x_details :=
      (x_details valid_transfer)\<lparr>xd_pickupGuidelines := []\<rparr>\<rparr>)) = []"
    by simp
  show ?thesis
    using a b pickup_guidelines_always_required [of stripHtmlTags valid_transfer]
      pickup_guidelines_always_required [of stripHtmlTags "valid_transfer\<lparr>x_details :=
        (x_details valid_transfer)\<lparr>xd_pickupGuidelines := []\<rparr>\<rparr>"]
    by blast
qed

section \<open>The vehicle of a private transfer\<close>

text \<open>
  Claim C5, as the code has it.  A transfer draft of type \<open>Private\<close> validates only if
  \<open>vehicle\<close> is present with a raw length of at least 2; no markup is stripped from it.
  When the field pass is not aborted and the vehicle is missing or shorter, the draft is
  rejected with the entry of the vehicle refinement, at path \<open>vehicle\<close>.
\<close>

theorem private_vehicle_raw_length:
  "(x_type d = ''Private'' \<and> success (transferSchema strip d) \<longrightarrow>
      (\<exists>v. x_vehicle d = Some v \<and> 2 \<le> length v)) \<and>
   (x_type d = ''Private'' \<and> \<not> aborted (transferObject strip d) \<and>
    (case x_vehicle d of None \<Rightarrow> True | Some v \<Rightarrow> length v < 2) \<longrightarrow>
      \<not> success (transferSchema strip d) \<and>
      ([Key ''vehicle''], Msg ''Vehicle name is required for private transfers'')
        \<in> set (issues (transferSchema strip d)))"
proof -
  have a: "\<exists>v. x_vehicle d = Some v \<and> 2 \<le> length v"
    if "x_type d = ''Private''" "success (transferSchema strip d)"
    using that
    by (auto simp: success_def transferSchema_Valid transfer_vehicleCheck_def
        split: option.splits)
  have b: "\<not> transfer_vehicleCheck d"
    if "x_type d = ''Private''" "case x_vehicle d of None \<Rightarrow> True | Some v \<Rightarrow> length v < 2"
    using that by (auto simp: transfer_vehicleCheck_def split: option.splits)
  have c: "\<not> success (transferSchema strip d) \<and>
      ([Key ''vehicle''], Msg ''Vehicle name is required for private transfers'')
        \<in> set (issues (transferSchema strip d))"
    if "x_type d = ''Private''" "\<not> aborted (transferObject strip d)"
       "case x_vehicle d of None \<Rightarrow> True | Some v \<Rightarrow> length v < 2"
    using b [OF that(1) that(3)] that(2)
    by (simp add: success_def issues_def aborted_def transferSchema_Valid transferSchema_issues)
  from a c show ?thesis by blast
qed

text \<open>
  The theorem at a private transfer with the vehicle \<open>Alphard\<close> and at the same
  transfer with an empty vehicle.
\<close>

theorem private_vehicle_raw_length_witness:
  "x_type private_transfer = ''Private'' \<and>
   success (transferSchema stripHtmlTags private_transfer) \<and>
   (\<exists>v. x_vehicle private_transfer = Some v \<and> 2 \<le> length v) \<and>
   x_type (private_transfer\<lparr>x_vehicle := Some []\<rparr>) = ''Private'' \<and>
   \<not> aborted (transferObject stripHtmlTags (private_transfer\<lparr>x_vehicle := Some []\<rparr>)) \<and>
   (case x_vehicle (private_transfer\<lparr>x_vehicle := Some []\<rparr>) of None \<Rightarrow> True
    | Some v \<Rightarrow> length v < 2) \<and>
   \<not> success (transferSchema stripHtmlTags (private_transfer\<lparr>x_vehicle := Some []\<rparr>)) \<and>
   ([Key ''vehicle''], Msg ''Vehicle name is required for private transfers'')
      \<in> set (issues (transferSchema stripHtmlTags (private_transfer\<lparr>x_vehicle := Some []\<rparr>)))"
proof -
  have a: "success (transferSchema stripHtmlTags private_transfer)"
    by (simp add: success_def transferSchema_private_transfer)
  have b: "x_type private_transfer = ''Private''"
    by (simp add: private_transfer_def)
  have "transferObject stripHtmlTags (private_transfer\<lparr>x_vehicle := Some []\<rparr>) = (Valid, [])"
    by (simp add: private_transfer_def eval_defs)
  then have c: "\<not> aborted (transferObject stripHtmlTags (private_transfer\<lparr>x_vehicle := Some []\<rparr>))"
    by (simp add: aborted_def)
  have d: "x_type (private_transfer\<lparr>x_vehicle := Some []\<rparr>) = ''Private''"
    by (simp add: private_transfer_def)
  have e: "case x_vehicle (private_transfer\<lparr>x_vehicle := Some []\<rparr>) of None \<Rightarrow> True
    | Some v \<Rightarrow> length v < 2"
    by simp
  show ?thesis
    using a b c d e private_vehicle_raw_length [of private_transfer stripHtmlTags]
      private_vehicle_raw_length [of "private_transfer\<lparr>x_vehicle := Some []\<rparr>" stripHtmlTags]
    by blast
qed

text \<open>
  The claim as stated, on stripped length, fails: the vehicle \<open><i>\<close> has raw length 3
  and stripped length 0, and the draft is accepted.
\<close>

theorem private_vehicle_counterexample:
  "x_type markup_vehicle_transfer = ''Private'' \<and>
   x_vehicle markup_vehicle_transfer = Some ''<i>'' \<and>
   length (stripHtmlTags ''<i>'') = 0 \<and>
   success (transferSchema stripHtmlTags markup_vehicle_transfer) \<and>
   issues (transferSchema stripHtmlTags markup_vehicle_transfer) = []"
proof -
  have "transferSchema stripHtmlTags markup_vehicle_transfer = (Valid, [])"
    by (rule transferSchema_accepts)
       (simp_all add: markup_vehicle_transfer_def eval_defs transfer_checks)
  then show ?thesis
    by (simp add: success_def issues_def markup_vehicle_transfer_def valid_transfer_def)
qed

section \<open>Maximum against minimum persons of a tour\<close>

text \<open>
  Claim C6, as the code has it.  In both tour schemas a draft of type \<open>co-tour\<close> whose
  \<open>maximumPerson\<close> is at most its \<open>minimumPerson\<close> never validates, and the error set
  contains the entry of the person refinement, at path \<open>maximumPerson\<close>, whenever the
  field pass is not aborted (no \<open>NaN\<close> number, no \<open>undefined\<close> image, no value outside
  an enum).  For a draft
  of type \<open>private\<close> that entry is never reported.
\<close>

theorem person_count_rule:
  "(t_type t = ''co-tour'' \<and> js_le (t_maximumPerson t) (t_minimumPerson t) \<longrightarrow>
      \<not> success (tourSchema strip t) \<and>
      (\<not> aborted (tourObject strip t) \<longrightarrow>
         ([Key ''maximumPerson''], Msg ''Maximum persons must be greater than minimum persons'')
           \<in> set (issues (tourSchema strip t)))) \<and>
   (t_type t = ''private'' \<longrightarrow>
      ([Key ''maximumPerson''], Msg ''Maximum persons must be greater than minimum persons'')
        \<notin> set (issues (tourSchema strip t))) \<and>
   (e_type e = ''co-tour'' \<and> js_le (e_maximumPerson e) (e_minimumPerson e) \<longrightarrow>
      \<not> success (editTourSchema e) \<and>
      (\<not> aborted (editTourObject e) \<longrightarrow>
         ([Key ''maximumPerson''], Msg ''Maximum persons must be greater than minimum persons'')
           \<in> set (issues (editTourSchema e)))) \<and>
   (e_type e = ''private'' \<longrightarrow>
      ([Key ''maximumPerson''], Msg ''Maximum persons must be greater than minimum persons'')
        \<notin> set (issues (editTourSchema e)))"
proof -
  have t1: "\<not> success (tourSchema strip t)"
    if "t_type t = ''co-tour''" "js_le (t_maximumPerson t) (t_minimumPerson t)"
    using that by (simp add: success_def tourSchema_Valid tour_personCheck_def)
  have t2: "([Key ''maximumPerson''], Msg ''Maximum persons must be greater than minimum persons'')
           \<in> set (issues (tourSchema strip t))"
    if "t_type t = ''co-tour''" "js_le (t_maximumPerson t) (t_minimumPerson t)"
       "\<not> aborted (tourObject strip t)"
    using that by (simp add: issues_def aborted_def tourSchema_issues tour_personCheck_def)
  have t3: "([Key ''maximumPerson''], Msg ''Maximum persons must be greater than minimum persons'')
        \<notin> set (issues (tourSchema strip t))" if "t_type t = ''private''"
  proof (cases "fst (tourObject strip t) = Aborted")
    case True
    then show ?thesis
      by (simp add: issues_def tourSchema_Aborted tourObject_no_person_issue)
  next
    case False
    then show ?thesis
      using that tourObject_no_person_issue [of strip t]
      by (simp add: issues_def tourSchema_issues tour_personCheck_def)
  qed
  have e1: "\<not> success (editTourSchema e)"
    if "e_type e = ''co-tour''" "js_le (e_maximumPerson e) (e_minimumPerson e)"
    using that by (simp add: success_def editTourSchema_Valid editTour_personCheck_def)
  have e2: "([Key ''maximumPerson''], Msg ''Maximum persons must be greater than minimum persons'')
           \<in> set (issues (editTourSchema e))"
    if "e_type e = ''co-tour''" "js_le (e_maximumPerson e) (e_minimumPerson e)"
       "\<not> aborted (editTourObject e)"
    using that by (simp add: issues_def aborted_def editTourSchema_issues editTour_personCheck_def)
  have e3: "([Key ''maximumPerson''], Msg ''Maximum persons must be greater than minimum persons'')
        \<notin> set (issues (editTourSchema e))" if "e_type e = ''private''"
  proof (cases "fst (editTourObject e) = Aborted")
    case True
    then show ?thesis
      by (simp add: issues_def editTourSchema_Aborted editTourObject_no_person_issue)
  next
    case False
    then show ?thesis
      using that editTourObject_no_person_issue [of e]
      by (simp add: issues_def editTourSchema_issues editTour_personCheck_def)
  qed
  from t1 t2 t3 e1 e2 e3 show ?thesis by blast
qed

text \<open>
  The theorem at drafts with \<open>minimumPerson = maximumPerson = 2\<close>, of type \<open>co-tour\<close>
  and of type \<open>private\<close>.
\<close>

theorem person_count_rule_witness:
  "t_type (valid_tour\<lparr>t_maximumPerson := Num 2\<rparr>) = ''co-tour'' \<and>
   js_le (t_maximumPerson (valid_tour\<lparr>t_maximumPerson := Num 2\<rparr>))
         (t_minimumPerson (valid_tour\<lparr>t_maximumPerson := Num 2\<rparr>)) \<and>
   \<not> aborted (tourObject stripHtmlTags (valid_tour\<lparr>t_maximumPerson := Num 2\<rparr>)) \<and>
   \<not> success (tourSchema stripHtmlTags (valid_tour\<lparr>t_maximumPerson := Num 2\<rparr>)) \<and>
   ([Key ''maximumPerson''], Msg ''Maximum persons must be greater than minimum persons'')
      \<in> set (issues (tourSchema stripHtmlTags (valid_tour\<lparr>t_maximumPerson := Num 2\<rparr>))) \<and>
   t_type (valid_tour\<lparr>t_type := ''private'', t_maximumPerson := Num 2\<rparr>) = ''private'' \<and>
   ([Key ''maximumPerson''], Msg ''Maximum persons must be greater than minimum persons'')
      \<notin> set (issues (tourSchema stripHtmlTags
            (valid_tour\<lparr>t_type := ''private'', t_maximumPerson := Num 2\<rparr>))) \<and>
   e_type (valid_editTour\<lparr>e_maximumPerson := Num 2\<rparr>) = ''co-tour'' \<and>
   js_le (e_maximumPerson (valid_editTour\<lparr>e_maximumPerson := Num 2\<rparr>))
         (e_minimumPerson (valid_editTour\<lparr>e_maximumPerson := Num 2\<rparr>)) \<and>
   \<not> aborted (editTourObject (valid_editTour\<lparr>e_maximumPerson := Num 2\<rparr>)) \<and>
   \<not> success (editTourSchema (valid_editTour\<lparr>e_maximumPerson := Num 2\<rparr>)) \<and>
   ([Key ''maximumPerson''], Msg ''Maximum persons must be greater than minimum persons'')
      \<in> set (issues (editTourSchema (valid_editTour\<lparr>e_maximumPerson := Num 2\<rparr>))) \<and>
   e_type (valid_editTour\<lparr>e_type := ''private'', e_maximumPerson := Num 2\<rparr>) = ''private'' \<and>
   ([Key ''maximumPerson''], Msg ''Maximum persons must be greater than minimum persons'')
      \<notin> set (issues (editTourSchema
            (valid_editTour\<lparr>e_type := ''private'', e_maximumPerson := Num 2\<rparr>)))"
proof -
  let ?t1 = "valid_tour\<lparr>t_maximumPerson := Num 2\<rparr>"
  let ?t2 = "valid_tour\<lparr>t_type := ''private'', t_maximumPerson := Num 2\<rparr>"
  let ?e1 = "valid_editTour\<lparr>e_maximumPerson := Num 2\<rparr>"
  let ?e2 = "valid_editTour\<lparr>e_type := ''private'', e_maximumPerson := Num 2\<rparr>"
  have t: "t_type ?t1 = ''co-tour'' \<and> js_le (t_maximumPerson ?t1) (t_minimumPerson ?t1)"
    by (simp add: valid_tour_def)
  have ta: "\<not> aborted (tourObject stripHtmlTags ?t1)"
    by (simp add: aborted_def tourObject_Aborted valid_tour_def)
  have tp: "t_type ?t2 = ''private''"
    by simp
  have e: "e_type ?e1 = ''co-tour'' \<and> js_le (e_maximumPerson ?e1) (e_minimumPerson ?e1)"
    by (simp add: valid_editTour_def)
  have "editTourObject ?e1 = (Valid, [])"
    by (simp add: eval_defs)
  then have ea: "\<not> aborted (editTourObject ?e1)"
    by (simp add: aborted_def)
  have ep: "e_type ?e2 = ''private''"
    by simp
  show ?thesis
    using t ta tp e ea ep person_count_rule [of ?t1 stripHtmlTags ?e1]
      person_count_rule [of ?t2 stripHtmlTags ?e2]
    by blast
qed

text \<open>
  The claim without the proviso fails: with \<open>bookedCount = NaN\<close> the only issue is the
  type error of \<open>bookedCount\<close>, although the tour is a \<open>co-tour\<close> with
  \<open>maximumPerson = minimumPerson\<close>.
\<close>

theorem person_count_rule_counterexample:
  "t_type (valid_tour\<lparr>t_bookedCount := NaN, t_maximumPerson := Num 2\<rparr>) = ''co-tour'' \<and>
   js_le (t_maximumPerson (valid_tour\<lparr>t_bookedCount := NaN, t_maximumPerson := Num 2\<rparr>))
         (t_minimumPerson (valid_tour\<lparr>t_bookedCount := NaN, t_maximumPerson := Num 2\<rparr>)) \<and>
   issues (tourSchema stripHtmlTags (valid_tour\<lparr>t_bookedCount := NaN, t_maximumPerson := Num 2\<rparr>))
     = [([Key ''bookedCount''], Default invalid_type)]"
proof -
  have "tourObject stripHtmlTags (valid_tour\<lparr>t_bookedCount := NaN, t_maximumPerson := Num 2\<rparr>)
     = (Aborted, [([Key ''bookedCount''], Default invalid_type)])"
    by (simp add: eval_defs)
  then show ?thesis
    by (simp add: issues_def tourSchema_Aborted) (simp add: valid_tour_def)
qed

section \<open>Length of the description of a tour\<close>

text \<open>
  Claim C7, as the code has it.  The tour-creation schema accepts a draft only if its
  description has between 50 and 110 characters; the tour-edit schema only if it has
  between 50 and 200.
\<close>

theorem description_bounds:
  "(success (tourSchema strip t) \<longrightarrow>
      50 \<le> length (t_description t) \<and> length (t_description t) \<le> 110) \<and>
   (success (editTourSchema e) \<longrightarrow>
      50 \<le> length (e_description e) \<and> length (e_description e) \<le> 200)"
  using tourObject_description [of strip t] editTourObject_description [of e]
  by (simp add: success_def tourSchema_Valid editTourSchema_Valid)

text \<open>
  The theorem at the accepted tour, in both shapes.
\<close>

theorem description_bounds_witness:
  "success (tourSchema stripHtmlTags valid_tour) \<and>
   50 \<le> length (t_description valid_tour) \<and> length (t_description valid_tour) \<le> 110 \<and>
   success (editTourSchema valid_editTour) \<and>
   50 \<le> length (e_description valid_editTour) \<and> length (e_description valid_editTour) \<le> 200"
proof -
  have a: "success (tourSchema stripHtmlTags valid_tour)"
    by (simp add: success_def tourSchema_valid_tour)
  have b: "success (editTourSchema valid_editTour)"
    by (simp add: success_def editTourSchema_valid_editTour)
  show ?thesis
    using a b description_bounds [of stripHtmlTags valid_tour valid_editTour] by blast
qed

text \<open>
  The bound 110 does not hold of the edit schema: it accepts a description of 150
  characters.
\<close>

theorem description_bounds_counterexample:
  "length (e_description (valid_editTour\<lparr>e_description := replicate 150 CHR ''y''\<rparr>)) = 150 \<and>
   success (editTourSchema (valid_editTour\<lparr>e_description := replicate 150 CHR ''y''\<rparr>)) \<and>
   issues (editTourSchema (valid_editTour\<lparr>e_description := replicate 150 CHR ''y''\<rparr>)) = []"
proof -
  have "editTourSchema (valid_editTour\<lparr>e_description := replicate 150 CHR ''y''\<rparr>) = (Valid, [])"
    by (rule editTourSchema_accepts) (simp_all add: eval_defs tour_checks)
  then show ?thesis
    by (simp add: success_def issues_def)
qed

section \<open>When the refinements are evaluated\<close>

text \<open>
  Claim C8, as the code has it.  The field pass of the tour-creation and of the transfer
  schema is aborted exactly when a field has a type error (a number field holds \<open>NaN\<close>,
  \<open>image\<close> is \<open>undefined\<close>) or an enum field holds a value outside its list; no failed
  length, range, pattern or field-level refine rule aborts it.  On an aborted field pass
  no refinement is evaluated: the error set is that of the field pass and contains the
  entry of no refinement.  On any other draft every refinement is evaluated in its order
  and the entries of the failing ones follow the field errors.
\<close>

theorem refinements_run_unless_aborted:
  "(aborted (tourObject strip t) \<longleftrightarrow>
      t_image t = None \<or> t_type t \<notin> {''co-tour'', ''private''} \<or>
      t_period t \<notin> {''Half-Day'', ''Full-Day''} \<or> t_bookedCount t = NaN \<or>
      t_oldPrice t = NaN \<or> t_newPrice t = NaN \<or> t_childPrice t = NaN \<or>
      t_minimumPerson t = NaN \<or> t_maximumPerson t = NaN \<or> t_seatCapacity t = Some NaN \<or>
      t_label t \<notin> {''Recommended'', ''Popular'', ''Best Value'', ''Best seller'', ''None''}) \<and>
   (aborted (tourObject strip t) \<longrightarrow>
      issues (tourSchema strip t) = issues (tourObject strip t) \<and>
      ([Key ''newPrice''], Msg ''New price must be less than or equal to old price'')
        \<notin> set (issues (tourSchema strip t)) \<and>
      ([Key ''maximumPerson''], Msg ''Maximum persons must be greater than minimum persons'')
        \<notin> set (issues (tourSchema strip t)) \<and>
      ([Key ''vehicle''], Msg ''Vehicle is required for private tours'')
        \<notin> set (issues (tourSchema strip t))) \<and>
   (\<not> aborted (tourObject strip t) \<longrightarrow>
      issues (tourSchema strip t) =
        issues (tourObject strip t)
        @ (if tour_priceCheck t then []
           else [([Key ''newPrice''], Msg ''New price must be less than or equal to old price'')])
        @ (if tour_personCheck t then []
           else [([Key ''maximumPerson''],
                  Msg ''Maximum persons must be greater than minimum persons'')])
        @ (if tour_vehicleCheck t then []
           else [([Key ''vehicle''], Msg ''Vehicle is required for private tours'')])) \<and>
   (aborted (transferObject strip x) \<longleftrightarrow>
      x_image x = None \<or> x_type x \<notin> {''Van'', ''Van + Ferry'', ''Private''} \<or>
      x_bookedCount x = NaN \<or> x_rating x = Some NaN \<or> x_reviewCount x = Some NaN \<or>
      x_oldPrice x = NaN \<or> x_newPrice x = NaN \<or> x_childPrice x = Some NaN \<or>
      x_minimumPerson x = Some NaN \<or> x_maximumPerson x = Some NaN \<or>
      x_seatCapacity x = NaN \<or>
      x_label x \<notin> {''Recommended'', ''Popular'', ''Best Value'', ''Best seller'', ''None''} \<or>
      xd_pickupOption (x_details x) \<notin> {''admin'', ''user''}) \<and>
   (aborted (transferObject strip x) \<longrightarrow>
      issues (transferSchema strip x) = issues (transferObject strip x) \<and>
      ([Key ''newPrice''], Msg ''New price must be less than or equal to old price'')
        \<notin> set (issues (transferSchema strip x)) \<and>
      ([Key ''type''],
        Msg ''Child price, minimum persons, and maximum persons are required for non-Private transfers'')
        \<notin> set (issues (transferSchema strip x)) \<and>
      ([Key ''maximumPerson''], Msg ''Maximum persons must be greater than minimum persons'')
        \<notin> set (issues (transferSchema strip x)) \<and>
      ([Key ''to''], Msg ''From and To locations must be different'')
        \<notin> set (issues (transferSchema strip x)) \<and>
      ([Key ''details.pickupLocation''], Msg ''Pickup location must be at least 10 characters'')
        \<notin> set (issues (transferSchema strip x)) \<and>
      ([Key ''details.pickupGuidelines''],
        Msg ''Pickup guidelines must be at least 15 characters'')
        \<notin> set (issues (transferSchema strip x)) \<and>
      ([Key ''vehicle''], Msg ''Vehicle name is required for private transfers'')
        \<notin> set (issues (transferSchema strip x))) \<and>
   (\<not> aborted (transferObject strip x) \<longrightarrow>
      issues (transferSchema strip x) =
        issues (transferObject strip x)
        @ (if transfer_priceCheck x then []
           else [([Key ''newPrice''], Msg ''New price must be less than or equal to old price'')])
        @ (if transfer_requiredCheck x then []
           else [([Key ''type''],
                  Msg ''Child price, minimum persons, and maximum persons are required for non-Private transfers'')])
        @ (if transfer_personCheck x then []
           else [([Key ''maximumPerson''],
                  Msg ''Maximum persons must be greater than minimum persons'')])
        @ (if transfer_routeCheck x then []
           else [([Key ''to''], Msg ''From and To locations must be different'')])
        @ (if transfer_pickupLocationCheck x then []
           else [([Key ''details.pickupLocation''],
                  Msg ''Pickup location must be at least 10 characters'')])
        @ (if transfer_pickupGuidelinesCheck x then []
           else [([Key ''details.pickupGuidelines''],
                  Msg ''Pickup guidelines must be at least 15 characters'')])
        @ (if transfer_vehicleCheck x then []
           else [([Key ''vehicle''], Msg ''Vehicle name is required for private transfers'')]))"
proof -
  have ta: "aborted (tourObject strip t) \<longleftrightarrow>
      t_image t = None \<or> t_type t \<notin> {''co-tour'', ''private''} \<or>
      t_period t \<notin> {''Half-Day'', ''Full-Day''} \<or> t_bookedCount t = NaN \<or>
      t_oldPrice t = NaN \<or> t_newPrice t = NaN \<or> t_childPrice t = NaN \<or>
      t_minimumPerson t = NaN \<or> t_maximumPerson t = NaN \<or> t_seatCapacity t = Some NaN \<or>
      t_label t \<notin> {''Recommended'', ''Popular'', ''Best Value'', ''Best seller'', ''None''}"
    unfolding aborted_def by (rule tourObject_Aborted)
  have xa: "aborted (transferObject strip x) \<longleftrightarrow>
      x_image x = None \<or> x_type x \<notin> {''Van'', ''Van + Ferry'', ''Private''} \<or>
      x_bookedCount x = NaN \<or> x_rating x = Some NaN \<or> x_reviewCount x = Some NaN \<or>
      x_oldPrice x = NaN \<or> x_newPrice x = NaN \<or> x_childPrice x = Some NaN \<or>
      x_minimumPerson x = Some NaN \<or> x_maximumPerson x = Some NaN \<or>
      x_seatCapacity x = NaN \<or>
      x_label x \<notin> {''Recommended'', ''Popular'', ''Best Value'', ''Best seller'', ''None''} \<or>
      xd_pickupOption (x_details x) \<notin> {''admin'', ''user''}"
    unfolding aborted_def by (rule transferObject_Aborted)
  have tb: "issues (tourSchema strip t) = issues (tourObject strip t)"
    if "aborted (tourObject strip t)"
    using that by (simp add: aborted_def issues_def tourSchema_Aborted)
  have xb: "issues (transferSchema strip x) = issues (transferObject strip x)"
    if "aborted (transferObject strip x)"
    using that by (simp add: aborted_def issues_def transferSchema_Aborted)
  note tn = tourObject_no_refinement_issue [of strip t, folded issues_def]
  note xn = transferObject_no_refinement_issue [of strip x, folded issues_def]
  have tc: "issues (tourSchema strip t) =
        issues (tourObject strip t)
        @ (if tour_priceCheck t then []
           else [([Key ''newPrice''], Msg ''New price must be less than or equal to old price'')])
        @ (if tour_personCheck t then []
           else [([Key ''maximumPerson''],
                  Msg ''Maximum persons must be greater than minimum persons'')])
        @ (if tour_vehicleCheck t then []
           else [([Key ''vehicle''], Msg ''Vehicle is required for private tours'')])"
    if "\<not> aborted (tourObject strip t)"
    using that tourSchema_issues [of strip t] by (simp add: aborted_def issues_def)
  have xc: "issues (transferSchema strip x) =
        issues (transferObject strip x)
        @ (if transfer_priceCheck x then []
           else [([Key ''newPrice''], Msg ''New price must be less than or equal to old price'')])
        @ (if transfer_requiredCheck x then []
           else [([Key ''type''],
                  Msg ''Child price, minimum persons, and maximum persons are required for non-Private transfers'')])
        @ (if transfer_personCheck x then []
           else [([Key ''maximumPerson''],
                  Msg ''Maximum persons must be greater than minimum persons'')])
        @ (if transfer_routeCheck x then []
           else [([Key ''to''], Msg ''From and To locations must be different'')])
        @ (if transfer_pickupLocationCheck x then []
           else [([Key ''details.pickupLocation''],
                  Msg ''Pickup location must be at least 10 characters'')])
        @ (if transfer_pickupGuidelinesCheck x then []
           else [([Key ''details.pickupGuidelines''],
                  Msg ''Pickup guidelines must be at least 15 characters'')])
        @ (if transfer_vehicleCheck x then []
           else [([Key ''vehicle''], Msg ''Vehicle name is required for private transfers'')])"
    if "\<not> aborted (transferObject strip x)"
    using that transferSchema_issues [of strip x] by (simp add: aborted_def issues_def)
  show ?thesis
    apply (intro conjI impI)
    using ta xa tb xb tc xc tn xn by simp_all
qed

text \<open>
  The theorem at drafts with \<open>newPrice > oldPrice\<close>: aborted by a \<open>NaN\<close>, and with a
  title that is too short.
\<close>

theorem refinements_run_unless_aborted_witness:
  "aborted (tourObject stripHtmlTags (valid_tour\<lparr>t_bookedCount := NaN, t_newPrice := Num 120\<rparr>)) \<and>
   issues (tourSchema stripHtmlTags (valid_tour\<lparr>t_bookedCount := NaN, t_newPrice := Num 120\<rparr>))
     = issues (tourObject stripHtmlTags (valid_tour\<lparr>t_bookedCount := NaN, t_newPrice := Num 120\<rparr>)) \<and>
   \<not> aborted (tourObject stripHtmlTags (valid_tour\<lparr>t_title := ''short'', t_newPrice := Num 120\<rparr>)) \<and>
   issues (tourSchema stripHtmlTags (valid_tour\<lparr>t_title := ''short'', t_newPrice := Num 120\<rparr>))
     = issues (tourObject stripHtmlTags (valid_tour\<lparr>t_title := ''short'', t_newPrice := Num 120\<rparr>))
       @ [([Key ''newPrice''], Msg ''New price must be less than or equal to old price'')] \<and>
   aborted (transferObject stripHtmlTags (valid_transfer\<lparr>x_seatCapacity := NaN, x_newPrice := Num 120\<rparr>)) \<and>
   issues (transferSchema stripHtmlTags (valid_transfer\<lparr>x_seatCapacity := NaN, x_newPrice := Num 120\<rparr>))
     = issues (transferObject stripHtmlTags (valid_transfer\<lparr>x_seatCapacity := NaN, x_newPrice := Num 120\<rparr>)) \<and>
   \<not> aborted (transferObject stripHtmlTags (valid_transfer\<lparr>x_title := ''short'', x_newPrice := Num 120\<rparr>)) \<and>
   issues (transferSchema stripHtmlTags (valid_transfer\<lparr>x_title := ''short'', x_newPrice := Num 120\<rparr>))
     = issues (transferObject stripHtmlTags (valid_transfer\<lparr>x_title := ''short'', x_newPrice := Num 120\<rparr>))
       @ [([Key ''newPrice''], Msg ''New price must be less than or equal to old price'')]"
proof -
  let ?ta = "valid_tour\<lparr>t_bookedCount := NaN, t_newPrice := Num 120\<rparr>"
  let ?tn = "valid_tour\<lparr>t_title := ''short'', t_newPrice := Num 120\<rparr>"
  let ?xa = "valid_transfer\<lparr>x_seatCapacity := NaN, x_newPrice := Num 120\<rparr>"
  let ?xn = "valid_transfer\<lparr>x_title := ''short'', x_newPrice := Num 120\<rparr>"
  have a: "aborted (tourObject stripHtmlTags ?ta)"
    by (simp add: aborted_def tourObject_Aborted)
  have b: "\<not> aborted (tourObject stripHtmlTags ?tn)"
    by (simp add: aborted_def tourObject_Aborted valid_tour_def)
  have c: "aborted (transferObject stripHtmlTags ?xa)"
    by (simp add: aborted_def transferObject_Aborted)
  have d: "\<not> aborted (transferObject stripHtmlTags ?xn)"
    by (simp add: aborted_def transferObject_Aborted valid_transfer_def)
  have tc: "\<not> tour_priceCheck ?tn \<and> tour_personCheck ?tn \<and> tour_vehicleCheck ?tn"
    by (simp add: valid_tour_def tour_checks)
  have xc: "\<not> transfer_priceCheck ?xn \<and> transfer_requiredCheck ?xn \<and> transfer_personCheck ?xn \<and>
      transfer_routeCheck ?xn \<and> transfer_pickupLocationCheck ?xn \<and>
      transfer_pickupGuidelinesCheck ?xn \<and> transfer_vehicleCheck ?xn"
    by (simp add: valid_transfer_def transfer_checks)
  note A = refinements_run_unless_aborted [of stripHtmlTags ?ta ?xa]
  note N = refinements_run_unless_aborted [of stripHtmlTags ?tn ?xn]
  have "issues (tourSchema stripHtmlTags ?ta) = issues (tourObject stripHtmlTags ?ta)"
    using A a by blast
  moreover have "issues (transferSchema stripHtmlTags ?xa) = issues (transferObject stripHtmlTags ?xa)"
    using A c by blast
  moreover have "issues (tourSchema stripHtmlTags ?tn)
     = issues (tourObject stripHtmlTags ?tn)
       @ [([Key ''newPrice''], Msg ''New price must be less than or equal to old price'')]"
    using conjunct1 [OF conjunct2 [OF conjunct2 [OF N]]] b tc by simp
  moreover have "issues (transferSchema stripHtmlTags ?xn)
     = issues (transferObject stripHtmlTags ?xn)
       @ [([Key ''newPrice''], Msg ''New price must be less than or equal to old price'')]"
    using conjunct2 [OF conjunct2 [OF conjunct2 [OF conjunct2 [OF conjunct2 [OF N]]]]] d xc
    by simp
  ultimately show ?thesis
    using a b c d by simp
qed

text \<open>
  The claim as stated fails: the title of this draft breaks its length rule, and the
  error set still contains the entry of the price refinement.
\<close>

theorem refinements_run_unless_aborted_counterexample:
  "issues (tourObject stripHtmlTags (valid_tour\<lparr>t_title := ''short'', t_newPrice := Num 120\<rparr>))
     = [([Key ''title''], Msg ''Title must be at least 20 characters'')] \<and>
   issues (tourSchema stripHtmlTags (valid_tour\<lparr>t_title := ''short'', t_newPrice := Num 120\<rparr>))
     = [([Key ''title''], Msg ''Title must be at least 20 characters''),
        ([Key ''newPrice''], Msg ''New price must be less than or equal to old price'')]"
proof -
  have "tourObject stripHtmlTags (valid_tour\<lparr>t_title := ''short'', t_newPrice := Num 120\<rparr>)
     = (Dirty, [([Key ''title''], Msg ''Title must be at least 20 characters'')])"
    by (simp add: eval_defs)
  then show ?thesis
    by (simp add: issues_def tourSchema_issues)
       (simp add: valid_tour_def tour_priceCheck_def tour_personCheck_def tour_vehicleCheck_def)
qed

section \<open>Saving after a change of an unwatched field\<close>

text \<open>
  Claim C9 does not hold of the code.  The effect that is to reset the validation
  "when any form field changes" lists the watched values of the transfer page without
  \<open>seatCapacity\<close> (nor \<open>vehicle\<close>, \<open>details.dropOffLocation\<close>, \<open>rating\<close>,
  \<open>reviewCount\<close>).  In the run below the form is validated successfully, then
  \<open>seatCapacity\<close> becomes 0; both flags stay set, and saving submits the changed
  values, which the schema rejects.
\<close>

theorem unwatched_field_keeps_validation:
  "xf_hasValidated run_validated \<and> xf_validationSuccess run_validated \<and>
   xf_values run_changed = private_transfer\<lparr>x_seatCapacity := Num 0\<rparr> \<and>
   xf_hasValidated run_changed \<and> xf_validationSuccess run_changed \<and>
   handleSaveTransfer run_changed = Submitted (private_transfer\<lparr>x_seatCapacity := Num 0\<rparr>) \<and>
   \<not> success (transferSchema stripHtmlTags (private_transfer\<lparr>x_seatCapacity := Num 0\<rparr>)) \<and>
   issues (transferSchema stripHtmlTags (private_transfer\<lparr>x_seatCapacity := Num 0\<rparr>))
     = [([Key ''seatCapacity''], Msg ''Seat capacity must be at least 1'')]"
proof -
  have "transferObject stripHtmlTags (private_transfer\<lparr>x_seatCapacity := Num 0\<rparr>)
     = (Dirty, [([Key ''seatCapacity''], Msg ''Seat capacity must be at least 1'')])"
    by (simp add: private_transfer_def eval_defs)
  then have "\<not> success (transferSchema stripHtmlTags (private_transfer\<lparr>x_seatCapacity := Num 0\<rparr>))
     \<and> issues (transferSchema stripHtmlTags (private_transfer\<lparr>x_seatCapacity := Num 0\<rparr>))
     = [([Key ''seatCapacity''], Msg ''Seat capacity must be at least 1'')]"
    by (simp add: success_def issues_def transferSchema_Valid transferSchema_issues)
       (simp add: private_transfer_def valid_transfer_def transfer_checks)
  then show ?thesis
    by (simp add: run_changed_eq run_validated_eq handleSaveTransfer_def run_start_def)
qed

text \<open>
  In that run the guard of \<open>handleSaveTransfer\<close> is passed: both flags are set and the
  image is uploaded when Save is clicked.
\<close>

theorem unwatched_field_keeps_validation_witness:
  "xf_hasValidated run_changed \<and> xf_validationSuccess run_changed \<and>
   xf_uploadedImageUrl run_changed \<noteq> [] \<and>
   handleSaveTransfer run_changed = Submitted (xf_values run_changed)"
  using unwatched_field_keeps_validation
  by (simp add: run_changed_eq run_validated_eq run_start_def)

end
